theory Spec2Isabelle
  imports Main
begin

section \<open>Identifiers, payloads and outbound events\<close>

text \<open>
  Connection ids (\<open>socket.id\<close>), room ids and room types are JavaScript strings.
  A display name read from \<open>socket.data.username\<close> is \<open>None\<close> while it is
  still \<open>undefined\<close>.
\<close>

type_synonym sid = string
type_synonym room = string
type_synonym kind = string

text \<open>The \<open>fileData\<close> object built by the upload endpoint.\<close>

record file_data =
  filename :: string
  originalname :: string
  mimetype :: string
  size_bytes :: nat
  path :: string

text \<open>
  One constructor per outbound event name, with the payload the source passes to
  \<open>emit\<close>:
  \<open>room-type-mismatch {existingType, attemptedType}\<close> (the existing type is
  \<open>None\<close> when \<open>roomData.type\<close> is \<open>undefined\<close>), \<open>room-full\<close>,
  \<open>room-not-found\<close>, \<open>room-created roomId\<close>, \<open>user-joined username\<close>,
  \<open>join-success roomId\<close>, \<open>chat-message {message, messageId, senderId, senderName}\<close>,
  \<open>read-receipt messageId\<close>, \<open>typing {senderName, isTyping}\<close>,
  \<open>user-left username\<close>, \<open>file-shared {...fileData, senderId, senderName, tempId}\<close>,
  and the \<open>chat-message {message, senderId}\<close> of the earliest variant.
\<close>

datatype event =
    RoomTypeMismatch "kind option" kind
  | RoomFull
  | RoomNotFound
  | RoomCreated room
  | UserJoined string
  | JoinSuccess room
  | ChatMessage string string sid "string option"
  | ReadReceipt string
  | Typing "string option" bool
  | UserLeft "string option"
  | FileShared file_data sid "string option" "string option"
  | ChatMessageV0 string sid

text \<open>A delivery is an event handed to one connection.\<close>

type_synonym delivery = "sid \<times> event"

section \<open>Server state\<close>

text \<open>
  \<open>activeRooms\<close> holds the own properties of the object of the source (room id to
  the \<open>type\<close> of its \<open>{type}\<close> entry); what \<open>activeRooms[roomId]\<close> reads,
  own or inherited, is \<open>room_data\<close> below.
  The other three fields are the transport's: \<open>sockets\<close> is
  \<open>io.sockets.sockets\<close> with each socket's \<open>data.username\<close>, \<open>rooms\<close> is
  \<open>io.sockets.adapter.rooms\<close> (room id to the set of member ids, a JavaScript
  \<open>Set\<close> kept in insertion order), and \<open>sids\<close> is what \<open>socket.rooms\<close> reads
  (connection id to the set of rooms it is in).
\<close>

record state =
  activeRooms :: "room \<rightharpoonup> kind"
  sockets :: "sid \<rightharpoonup> string option"
  rooms :: "room \<rightharpoonup> sid list"
  sids :: "sid \<rightharpoonup> room list"

definition init_state :: state where
  "init_state = \<lparr>activeRooms = Map.empty, sockets = Map.empty, rooms = Map.empty, sids = Map.empty\<rparr>"

subsection \<open>The transport's operations used by the handlers\<close>

text \<open>\<open>Set.prototype.add\<close>: appends unless present.\<close>

definition set_add :: "'a \<Rightarrow> 'a list \<Rightarrow> 'a list" where
  "set_add x xs = (if x \<in> set xs then xs else xs @ [x])"

text \<open>The members of a room; a room with no entry in \<open>adapter.rooms\<close> has none.\<close>

definition members :: "state \<Rightarrow> room \<Rightarrow> sid list" where
  "members s r = (case rooms s r of None \<Rightarrow> [] | Some ms \<Rightarrow> ms)"

text \<open>\<open>socket.rooms\<close>.\<close>

definition socket_rooms :: "state \<Rightarrow> sid \<Rightarrow> room list" where
  "socket_rooms s c = (case sids s c of None \<Rightarrow> [] | Some rs \<Rightarrow> rs)"

text \<open>\<open>socket.data.username\<close> of a connection.\<close>

definition username :: "state \<Rightarrow> sid \<Rightarrow> string option" where
  "username s c = (case sockets s c of None \<Rightarrow> None | Some u \<Rightarrow> u)"

definition set_username :: "state \<Rightarrow> sid \<Rightarrow> string \<Rightarrow> state" where
  "set_username s c u = s\<lparr>sockets := (sockets s)(c \<mapsto> Some u)\<rparr>"

text \<open>\<open>socket.join(roomId)\<close>: the id enters the room's set, the room the socket's set.\<close>

definition socket_join :: "state \<Rightarrow> sid \<Rightarrow> room \<Rightarrow> state" where
  "socket_join s c r =
     s\<lparr>rooms := (rooms s)(r \<mapsto> set_add c (members s r)),
       sids := (sids s)(c \<mapsto> set_add r (socket_rooms s c))\<rparr>"

text \<open>\<open>socket.emit(e)\<close>: to the socket itself only.\<close>

definition socket_emit :: "sid \<Rightarrow> event \<Rightarrow> delivery list" where
  "socket_emit c e = [(c, e)]"

text \<open>
  \<open>socket.to(r).emit(e)\<close>: the transport broadcasts to the room \<open>r\<close> with the room
  named by \<open>socket.id\<close> as the room to leave out, so the event goes to every member of
  \<open>r\<close> that is not a member of the room named by the sender's id.
\<close>

definition socket_to :: "state \<Rightarrow> sid \<Rightarrow> room \<Rightarrow> event \<Rightarrow> delivery list" where
  "socket_to s c r e = map (\<lambda>m. (m, e)) (filter (\<lambda>m. m \<notin> set (members s c)) (members s r))"

text \<open>\<open>io.to(r).emit(e)\<close>: to every member of the room.\<close>

definition io_to :: "state \<Rightarrow> room \<Rightarrow> event \<Rightarrow> delivery list" where
  "io_to s r e = map (\<lambda>m. (m, e)) (members s r)"

text \<open>
  A new connection: the transport registers the socket, with no display name yet, and
  puts it into the room named by its own id.
\<close>

definition transport_connect :: "state \<Rightarrow> sid \<Rightarrow> state" where
  "transport_connect s c = socket_join (s\<lparr>sockets := (sockets s)(c \<mapsto> None)\<rparr>) c c"

text \<open>
  Teardown after the \<open>disconnecting\<close> handlers have run: the socket leaves each of its
  rooms, a room left empty is dropped from \<open>adapter.rooms\<close>, and the socket is removed.
\<close>

definition del_member :: "state \<Rightarrow> sid \<Rightarrow> room \<Rightarrow> state" where
  "del_member s c r =
     (case rooms s r of
        None \<Rightarrow> s
      | Some ms \<Rightarrow>
          (let ms' = filter (\<lambda>m. m \<noteq> c) ms
           in s\<lparr>rooms := (if ms' = [] then (rooms s)(r := None) else (rooms s)(r \<mapsto> ms'))\<rparr>))"

definition transport_teardown :: "state \<Rightarrow> sid \<Rightarrow> state" where
  "transport_teardown s c =
     (let s1 = foldl (\<lambda>a r. del_member a c r) s (socket_rooms s c)
      in s1\<lparr>sids := (sids s1)(c := None), sockets := (sockets s1)(c := None)\<rparr>)"

section \<open>The handlers of \<open>server.js\<close>\<close>

text \<open>The tail of the \<open>join-room\<close> handler, reached when all checks pass.\<close>

definition do_join :: "state \<Rightarrow> sid \<Rightarrow> room \<Rightarrow> string \<Rightarrow> state \<times> delivery list" where
  "do_join s c roomId uname =
     (let s1 = set_username s c uname;
          s2 = socket_join s1 c roomId
      in (s2, socket_to s2 c roomId (UserJoined uname) @ socket_emit c (JoinSuccess roomId)))"

text \<open>
  \<open>activeRooms\<close> is a plain object, so \<open>activeRooms[roomId]\<close> also finds the
  properties every object inherits from \<open>Object.prototype\<close>. Each of them is truthy
  and has no \<open>type\<close>.
\<close>

definition object_prototype_names :: "string list" where
  "object_prototype_names =
     [''constructor'', ''__defineGetter__'', ''__defineSetter__'', ''hasOwnProperty'',
      ''__lookupGetter__'', ''__lookupSetter__'', ''isPrototypeOf'', ''propertyIsEnumerable'',
      ''toString'', ''valueOf'', ''__proto__'', ''toLocaleString'']"

text \<open>
  \<open>const roomData = activeRooms[roomId]\<close>: \<open>None\<close> when the lookup gives
  \<open>undefined\<close>, otherwise \<open>Some\<close> of what \<open>roomData.type\<close> reads: the entered
  type of an own entry, \<open>None\<close> (\<open>undefined\<close>) for an inherited property.
\<close>

definition room_data :: "state \<Rightarrow> room \<Rightarrow> kind option option" where
  "room_data s r =
     (case activeRooms s r of
        Some t \<Rightarrow> Some (Some t)
      | None \<Rightarrow> if r \<in> set object_prototype_names then Some None else None)"

text \<open>\<open>room && room.size >= 2\<close>.\<close>

definition room_size_ge2 :: "state \<Rightarrow> room \<Rightarrow> bool" where
  "room_size_ge2 s r = (case rooms s r of None \<Rightarrow> False | Some ms \<Rightarrow> 2 \<le> length ms)"

definition join_room :: "state \<Rightarrow> sid \<Rightarrow> room \<Rightarrow> string \<Rightarrow> kind \<Rightarrow> state \<times> delivery list" where
  "join_room s c roomId uname roomType =
     (case room_data s roomId of
        Some ty \<Rightarrow>
          if ty \<noteq> Some roomType then (s, socket_emit c (RoomTypeMismatch ty roomType))
          else if ty = Some ''private'' \<and> room_size_ge2 s roomId then (s, socket_emit c RoomFull)
          else do_join s c roomId uname
      | None \<Rightarrow> do_join (s\<lparr>activeRooms := (activeRooms s)(roomId \<mapsto> roomType)\<rparr>) c roomId uname)"

definition chat_message :: "state \<Rightarrow> sid \<Rightarrow> room \<Rightarrow> string \<Rightarrow> string \<Rightarrow> state \<times> delivery list" where
  "chat_message s c roomId message messageId =
     (s, socket_to s c roomId (ChatMessage message messageId c (username s c)))"

definition message_seen :: "state \<Rightarrow> sid \<Rightarrow> room \<Rightarrow> string \<Rightarrow> state \<times> delivery list" where
  "message_seen s c roomId messageId = (s, socket_to s c roomId (ReadReceipt messageId))"

definition typing :: "state \<Rightarrow> sid \<Rightarrow> room \<Rightarrow> bool \<Rightarrow> state \<times> delivery list" where
  "typing s c roomId isTyping = (s, socket_to s c roomId (Typing (username s c) isTyping))"

text \<open>
  The body of the loop of the \<open>disconnecting\<close> handler for one room of the socket:
  the broadcast first, then the size check and the deletion from \<open>activeRooms\<close>.
\<close>

definition leave_room :: "state \<Rightarrow> sid \<Rightarrow> room \<Rightarrow> state \<times> delivery list" where
  "leave_room s c r =
     (if r \<noteq> c then
        (let out = socket_to s c r (UserLeft (username s c));
             s' = (case rooms s r of
                     None \<Rightarrow> s
                   | Some ms \<Rightarrow>
                       if length ms = 1 then s\<lparr>activeRooms := (activeRooms s)(r := None)\<rparr> else s)
         in (s', out))
      else (s, []))"

fun leave_rooms :: "state \<Rightarrow> sid \<Rightarrow> room list \<Rightarrow> state \<times> delivery list" where
  "leave_rooms s c [] = (s, [])"
| "leave_rooms s c (r # rs) =
     (let (s1, out1) = leave_room s c r;
          (s2, out2) = leave_rooms s1 c rs
      in (s2, out1 @ out2))"

definition disconnecting :: "state \<Rightarrow> sid \<Rightarrow> state \<times> delivery list" where
  "disconnecting s c = leave_rooms s c (socket_rooms s c)"

text \<open>A disconnect as a whole: the handler, then the transport's teardown.\<close>

definition disconnect :: "state \<Rightarrow> sid \<Rightarrow> state \<times> delivery list" where
  "disconnect s c = (let (s1, out) = disconnecting s c in (transport_teardown s1 c, out))"

subsection \<open>The upload endpoint\<close>

text \<open>
  What the multipart parser hands to the callback: an error, no file, or the stored
  file. The response is the status code with the error text or the descriptor.
\<close>

record stored_file =
  sf_filename :: string
  sf_originalname :: string
  sf_mimetype :: string
  sf_size :: nat

datatype upload_result = UploadError string | NoFile | Stored stored_file

datatype response = Status500 string | Status400 string | Status200 file_data

definition mk_file_data :: "stored_file \<Rightarrow> file_data" where
  "mk_file_data f =
     \<lparr>filename = sf_filename f, originalname = sf_originalname f, mimetype = sf_mimetype f,
      size_bytes = sf_size f, path = ''/uploads/'' @ sf_filename f\<rparr>"

text \<open>\<open>senderSocket ? senderSocket.data.username : 'A user'\<close>.\<close>

definition sender_name :: "state \<Rightarrow> sid \<Rightarrow> string option" where
  "sender_name s senderId =
     (case sockets s senderId of None \<Rightarrow> Some ''A user'' | Some u \<Rightarrow> u)"

text \<open>
  The form fields \<open>roomId\<close> and \<open>tempId\<close> may be missing (\<open>None\<close>);
  \<open>if (roomId)\<close> also fails on the empty string.
\<close>

definition upload :: "state \<Rightarrow> upload_result \<Rightarrow> room option \<Rightarrow> sid \<Rightarrow> string option
    \<Rightarrow> response \<times> delivery list" where
  "upload s res roomId senderId tempId =
     (case res of
        UploadError msg \<Rightarrow> (Status500 msg, [])
      | NoFile \<Rightarrow> (Status400 ''No file uploaded.'', [])
      | Stored f \<Rightarrow>
          (let fileData = mk_file_data f;
               out = (case roomId of
                        None \<Rightarrow> []
                      | Some r \<Rightarrow>
                          if r \<noteq> [] then
                            io_to s r (FileShared fileData senderId (sender_name s senderId) tempId)
                          else [])
           in (Status200 fileData, out)))"

section \<open>The handlers of the other two variants\<close>

text \<open>
  The strict variant (\<open>part_001\<close>): rooms are made by \<open>createRoom\<close> under an id that
  \<open>nanoid(8)\<close> generates, here the parameter \<open>roomId\<close> (eight characters, so never
  \<open>__proto__\<close>, the one name whose assignment makes no own property);
  \<open>join-room\<close> takes no room type and fails when the lookup finds nothing. Its other
  handlers are those of \<open>server.js\<close>.
\<close>

definition createRoom :: "state \<Rightarrow> sid \<Rightarrow> room \<Rightarrow> string \<Rightarrow> kind \<Rightarrow> state \<times> delivery list" where
  "createRoom s c roomId uname roomType =
     (let s1 = s\<lparr>activeRooms := (activeRooms s)(roomId \<mapsto> roomType)\<rparr>;
          s2 = set_username s1 c uname;
          s3 = socket_join s2 c roomId
      in (s3, socket_emit c (RoomCreated roomId)))"

definition join_room_strict :: "state \<Rightarrow> sid \<Rightarrow> room \<Rightarrow> string \<Rightarrow> state \<times> delivery list" where
  "join_room_strict s c roomId uname =
     (case room_data s roomId of
        None \<Rightarrow> (s, socket_emit c RoomNotFound)
      | Some ty \<Rightarrow>
          if ty = Some ''private'' \<and> room_size_ge2 s roomId then (s, socket_emit c RoomFull)
          else do_join s c roomId uname)"

text \<open>
  The earliest variant (\<open>part_000\<close>) keeps no \<open>activeRooms\<close>; its \<open>chat-message\<close>
  handler emits with \<open>io.to\<close>.
\<close>

definition chat_message_v0 :: "state \<Rightarrow> sid \<Rightarrow> room \<Rightarrow> string \<Rightarrow> state \<times> delivery list" where
  "chat_message_v0 s c roomId message = (s, io_to s roomId (ChatMessageV0 message c))"

definition join_room_v0 :: "state \<Rightarrow> sid \<Rightarrow> room \<Rightarrow> state \<times> delivery list" where
  "join_room_v0 s c roomId =
     (let s1 = socket_join s c roomId in (s1, socket_to s1 c roomId (UserJoined c)))"

section \<open>Requests and runs\<close>

text \<open>
  What a server receives: a new connection, the client events, a disconnect. The room id
  of the two creation events is the one \<open>nanoid(8)\<close> returns for that call.
\<close>

datatype request =
    Connect sid
  | JoinRoom sid room string kind
  | CreatePrivateRoom sid room string
  | CreateGroupRoom sid room string
  | SendChat sid room string string
  | SendSeen sid room string
  | SendTyping sid room bool
  | Disconnect sid

text \<open>\<open>server.js\<close> registers no handler for the creation events: they do nothing.\<close>

fun handle :: "state \<Rightarrow> request \<Rightarrow> state \<times> delivery list" where
  "handle s (Connect c) = (transport_connect s c, [])"
| "handle s (JoinRoom c r u k) = join_room s c r u k"
| "handle s (CreatePrivateRoom c r u) = (s, [])"
| "handle s (CreateGroupRoom c r u) = (s, [])"
| "handle s (SendChat c r m i) = chat_message s c r m i"
| "handle s (SendSeen c r i) = message_seen s c r i"
| "handle s (SendTyping c r b) = typing s c r b"
| "handle s (Disconnect c) = disconnect s c"

text \<open>The strict variant reads only \<open>roomId\<close> and \<open>username\<close> of a \<open>join-room\<close> payload.\<close>

fun handle_strict :: "state \<Rightarrow> request \<Rightarrow> state \<times> delivery list" where
  "handle_strict s (Connect c) = (transport_connect s c, [])"
| "handle_strict s (JoinRoom c r u k) = join_room_strict s c r u"
| "handle_strict s (CreatePrivateRoom c r u) = createRoom s c r u ''private''"
| "handle_strict s (CreateGroupRoom c r u) = createRoom s c r u ''group''"
| "handle_strict s (SendChat c r m i) = chat_message s c r m i"
| "handle_strict s (SendSeen c r i) = message_seen s c r i"
| "handle_strict s (SendTyping c r b) = typing s c r b"
| "handle_strict s (Disconnect c) = disconnect s c"

text \<open>
  A request the server can receive in a state: the transport gives a new connection an
  id that names no socket and no room, \<open>nanoid\<close> returns an id that names no room,
  and only a connected socket sends events or disconnects.
\<close>

fun admissible :: "state \<Rightarrow> request \<Rightarrow> bool" where
  "admissible s (Connect c) = (sockets s c = None \<and> rooms s c = None)"
| "admissible s (JoinRoom c r u k) = (sockets s c \<noteq> None)"
| "admissible s (CreatePrivateRoom c r u) =
     (sockets s c \<noteq> None \<and> activeRooms s r = None \<and> rooms s r = None)"
| "admissible s (CreateGroupRoom c r u) =
     (sockets s c \<noteq> None \<and> activeRooms s r = None \<and> rooms s r = None)"
| "admissible s (SendChat c r m i) = (sockets s c \<noteq> None)"
| "admissible s (SendSeen c r i) = (sockets s c \<noteq> None)"
| "admissible s (SendTyping c r b) = (sockets s c \<noteq> None)"
| "admissible s (Disconnect c) = (sockets s c \<noteq> None)"

inductive reachable :: "state \<Rightarrow> bool" where
  init: "reachable init_state"
| step: "reachable s \<Longrightarrow> admissible s q \<Longrightarrow> reachable (fst (handle s q))"

inductive reachable_strict :: "state \<Rightarrow> bool" where
  init_strict: "reachable_strict init_state"
| step_strict:
    "reachable_strict s \<Longrightarrow> admissible s q \<Longrightarrow> reachable_strict (fst (handle_strict s q))"

fun run :: "state \<Rightarrow> request list \<Rightarrow> state" where
  "run s [] = s"
| "run s (q # qs) = run (fst (handle s q)) qs"

fun admissible_trace :: "state \<Rightarrow> request list \<Rightarrow> bool" where
  "admissible_trace s [] = True"
| "admissible_trace s (q # qs) = (admissible s q \<and> admissible_trace (fst (handle s q)) qs)"

fun run_strict :: "state \<Rightarrow> request list \<Rightarrow> state" where
  "run_strict s [] = s"
| "run_strict s (q # qs) = run_strict (fst (handle_strict s q)) qs"

fun admissible_trace_strict :: "state \<Rightarrow> request list \<Rightarrow> bool" where
  "admissible_trace_strict s [] = True"
| "admissible_trace_strict s (q # qs) =
     (admissible s q \<and> admissible_trace_strict (fst (handle_strict s q)) qs)"

section \<open>Invariants\<close>

text \<open>
  The transport keeps its two indexes in step: a socket has an entry in \<open>sids\<close> exactly
  while it is connected, a room is among a socket's rooms exactly if the socket is among
  the room's members, no member is listed twice, and a connected socket is a member of
  the room named by its own id.
\<close>

definition well_formed :: "state \<Rightarrow> bool" where
  "well_formed s \<longleftrightarrow>
     (\<forall>c. sids s c = None \<longleftrightarrow> sockets s c = None)
   \<and> (\<forall>c r. r \<in> set (socket_rooms s c) \<longleftrightarrow> c \<in> set (members s r))
   \<and> (\<forall>r. distinct (members s r))
   \<and> (\<forall>c. sockets s c \<noteq> None \<longrightarrow> c \<in> set (members s c))"

text \<open>
  A room for which the lookup in \<open>activeRooms\<close> finds nothing has no member but the
  socket of that name, and a room entered as \<open>private\<close> has at most two members.
\<close>

definition dir_inv :: "state \<Rightarrow> bool" where
  "dir_inv s \<longleftrightarrow>
     (\<forall>r. room_data s r = None \<longrightarrow> set (members s r) \<subseteq> {r})
   \<and> (\<forall>r. activeRooms s r = Some ''private'' \<longrightarrow> length (members s r) \<le> 2)"

text \<open>The second half alone is what the strict variant keeps.\<close>

definition private_inv :: "state \<Rightarrow> bool" where
  "private_inv s \<longleftrightarrow> (\<forall>r. activeRooms s r = Some ''private'' \<longrightarrow> length (members s r) \<le> 2)"

text \<open>The three events with which a \<open>join-room\<close> request is turned down.\<close>

definition is_rejection :: "event \<Rightarrow> bool" where
  "is_rejection e =
     (case e of RoomTypeMismatch _ _ \<Rightarrow> True | RoomFull \<Rightarrow> True | RoomNotFound \<Rightarrow> True
      | _ \<Rightarrow> False)"

section \<open>Scenarios\<close>

text \<open>
  Concrete runs, used to evaluate the handlers: three connections of which two share the
  private room \<open>r1\<close>, under \<open>server.js\<close> and under the strict variant.
\<close>

definition trace_private :: "request list" where
  "trace_private =
     [Connect ''X'', Connect ''Y'', Connect ''Z'',
      JoinRoom ''X'' ''r1'' ''alice'' ''private'',
      JoinRoom ''Y'' ''r1'' ''bob'' ''private'']"

definition scenario_private :: state where
  "scenario_private = run init_state trace_private"

definition trace_private_strict :: "request list" where
  "trace_private_strict =
     [Connect ''X'', Connect ''Y'', Connect ''Z'',
      CreatePrivateRoom ''X'' ''r1'' ''alice'',
      JoinRoom ''Y'' ''r1'' ''bob'' ''private'']"

definition scenario_private_strict :: state where
  "scenario_private_strict = run_strict init_state trace_private_strict"

text \<open>
  A group room \<open>abc123\<close>: first \<open>X\<close> alone in it, then \<open>X\<close> and \<open>Y\<close>, with
  \<open>Z\<close> connected and in no room; a connection alone in the room \<open>solo\<close>; a
  connection that joins the room named by its own id and disconnects; and, for the
  earliest variant, a connection \<open>A\<close> in a room \<open>r\<close>.
\<close>

definition trace_group :: "request list" where
  "trace_group =
     [Connect ''X'', Connect ''Y'', Connect ''Z'', JoinRoom ''X'' ''abc123'' ''alice'' ''group'']"

definition scenario_group :: state where
  "scenario_group = run init_state trace_group"

definition scenario_chat :: state where
  "scenario_chat = run scenario_group [JoinRoom ''Y'' ''abc123'' ''bob'' ''group'']"

definition scenario_solo :: state where
  "scenario_solo = run init_state [Connect ''X'', JoinRoom ''X'' ''solo'' ''alice'' ''group'']"

definition trace_own_id :: "request list" where
  "trace_own_id = [Connect ''X'', JoinRoom ''X'' ''X'' ''alice'' ''group'', Disconnect ''X'']"

definition scenario_v0 :: state where
  "scenario_v0 = fst (join_room_v0 (transport_connect init_state ''A'') ''A'' ''r'')"

text \<open>
  A connection \<open>Y\<close> that has joined the room named by the id of another connection:
  of \<open>X\<close>, before \<open>X\<close> joins the room \<open>abc123\<close> that \<open>Y\<close> is in and
  after; and of \<open>Z\<close>, which is in no room but its own.
\<close>

definition trace_intruder :: "request list" where
  "trace_intruder =
     [Connect ''X'', Connect ''Y'', JoinRoom ''Y'' ''X'' ''bob'' ''group'',
      JoinRoom ''Y'' ''abc123'' ''bob'' ''group'']"

definition trace_intruder_joined :: "request list" where
  "trace_intruder_joined = trace_intruder @ [JoinRoom ''X'' ''abc123'' ''alice'' ''group'']"

definition trace_intruder_outsider :: "request list" where
  "trace_intruder_outsider =
     [Connect ''X'', Connect ''Y'', Connect ''Z'', JoinRoom ''X'' ''abc123'' ''alice'' ''group'',
      JoinRoom ''Y'' ''abc123'' ''bob'' ''group'', JoinRoom ''Y'' ''Z'' ''bob'' ''group'']"

text \<open>The requests of a sequence of joins to one room, each given by connection, name and type.\<close>

definition join_requests :: "room \<Rightarrow> (sid \<times> string \<times> kind) list \<Rightarrow> request list" where
  "join_requests r js = map (\<lambda>(c, u, k). JoinRoom c r u k) js"

text \<open>A stored upload.\<close>

definition photo :: stored_file where
  "photo = \<lparr>sf_filename = ''1700000000000-cat.png'', sf_originalname = ''cat.png'',
            sf_mimetype = ''image/png'', sf_size = 2048\<rparr>"

text \<open>Three connections, no room yet.\<close>

definition scenario_connected :: state where
  "scenario_connected = run init_state [Connect ''X'', Connect ''Y'', Connect ''Z'']"

section \<open>Auxiliary facts\<close>

subsection \<open>The transport operations\<close>

lemma set_set_add [simp]: "set (set_add x xs) = insert x (set xs)"
  by (auto simp: set_add_def)

lemma distinct_set_add [simp]: "distinct (set_add x xs) = distinct xs"
  by (auto simp: set_add_def)

lemma length_set_add: "length (set_add x xs) \<le> Suc (length xs)"
  by (simp add: set_add_def)

lemma filter_set_add [simp]: "filter (\<lambda>m. m \<noteq> x) (set_add x xs) = filter (\<lambda>m. m \<noteq> x) xs"
  by (simp add: set_add_def)

lemma members_socket_join [simp]:
  "members (socket_join s c r) r' = (if r' = r then set_add c (members s r) else members s r')"
  by (simp add: socket_join_def members_def)

lemma socket_rooms_socket_join [simp]:
  "socket_rooms (socket_join s c r) c' = (if c' = c then set_add r (socket_rooms s c) else socket_rooms s c')"
  by (simp add: socket_join_def socket_rooms_def)

lemma socket_join_frame [simp]:
  "activeRooms (socket_join s c r) = activeRooms s"
  "sockets (socket_join s c r) = sockets s"
  "sids (socket_join s c r) c' = (if c' = c then Some (set_add r (socket_rooms s c)) else sids s c')"
  by (simp_all add: socket_join_def)

lemma set_username_frame [simp]:
  "activeRooms (set_username s c u) = activeRooms s"
  "sockets (set_username s c u) = (sockets s)(c \<mapsto> Some u)"
  "rooms (set_username s c u) = rooms s"
  "sids (set_username s c u) = sids s"
  "members (set_username s c u) = members s"
  "socket_rooms (set_username s c u) = socket_rooms s"
  by (simp_all add: set_username_def members_def socket_rooms_def fun_eq_iff)

lemma members_upd_activeRooms [simp]: "members (s\<lparr>activeRooms := A\<rparr>) = members s"
  by (simp add: members_def fun_eq_iff)

lemma socket_rooms_upd_activeRooms [simp]: "socket_rooms (s\<lparr>activeRooms := A\<rparr>) = socket_rooms s"
  by (simp add: socket_rooms_def fun_eq_iff)

lemma username_upd_activeRooms [simp]: "username (s\<lparr>activeRooms := A\<rparr>) = username s"
  by (simp add: username_def fun_eq_iff)

lemma socket_to_upd_activeRooms [simp]: "socket_to (s\<lparr>activeRooms := A\<rparr>) = socket_to s"
  by (simp add: socket_to_def fun_eq_iff)

lemma well_formed_upd_activeRooms [simp]: "well_formed (s\<lparr>activeRooms := A\<rparr>) = well_formed s"
  by (simp add: well_formed_def)

lemma well_formed_socket_join: "well_formed s \<Longrightarrow> sockets s c \<noteq> None \<Longrightarrow> well_formed (socket_join s c r)"
  unfolding well_formed_def by auto

lemma well_formed_set_username: "well_formed s \<Longrightarrow> sockets s c \<noteq> None \<Longrightarrow> well_formed (set_username s c u)"
  unfolding well_formed_def by auto

lemma well_formed_do_join: "well_formed s \<Longrightarrow> sockets s c \<noteq> None \<Longrightarrow> well_formed (fst (do_join s c r u))"
  by (simp add: do_join_def Let_def well_formed_socket_join well_formed_set_username)

lemma well_formed_init: "well_formed init_state"
  by (simp add: well_formed_def init_state_def members_def socket_rooms_def)


subsection \<open>A new connection\<close>

lemma well_formed_connect:
  assumes "well_formed s" "sockets s c = None" "rooms s c = None"
  shows "well_formed (transport_connect s c)"
proof -
  from assms have n: "sids s c = None" by (simp add: well_formed_def)
  then have sr: "socket_rooms s c = []" by (simp add: socket_rooms_def)
  from assms(3) have mc: "members s c = []" by (simp add: members_def)
  from assms(1) sr have nm: "\<And>r. c \<notin> set (members s r)"
    unfolding well_formed_def by (metis empty_iff list.set(1))
  let ?s0 = "s\<lparr>sockets := (sockets s)(c \<mapsto> None)\<rparr>"
  have m0: "members ?s0 = members s" and r0: "socket_rooms ?s0 = socket_rooms s"
    by (simp_all add: members_def socket_rooms_def fun_eq_iff)
  show ?thesis
    using assms(1) sr mc nm
    unfolding transport_connect_def well_formed_def
    by (auto simp: m0 r0)
qed

subsection \<open>The \<open>disconnecting\<close> loop in closed form\<close>

lemma leave_room_upd:
  "leave_room (s\<lparr>activeRooms := A\<rparr>) c r =
     (s\<lparr>activeRooms := (if r \<noteq> c \<and> length (members s r) = 1 then A(r := None) else A)\<rparr>,
      if r \<noteq> c then socket_to s c r (UserLeft (username s c)) else [])"
  by (auto simp: leave_room_def Let_def members_def split: option.splits)

lemma leave_rooms_upd:
  "leave_rooms (s\<lparr>activeRooms := A\<rparr>) c rs =
     (s\<lparr>activeRooms := (\<lambda>r. if r \<in> set rs \<and> r \<noteq> c \<and> length (members s r) = 1 then None else A r)\<rparr>,
      concat (map (\<lambda>r. if r \<noteq> c then socket_to s c r (UserLeft (username s c)) else []) rs))"
proof (induction rs arbitrary: A)
  case Nil
  then show ?case by simp
next
  case (Cons r rs)
  show ?case
    by (simp add: leave_room_upd Cons.IH fun_eq_iff)
qed

lemma disconnecting_eq:
  "disconnecting s c =
     (s\<lparr>activeRooms := (\<lambda>r. if r \<in> set (socket_rooms s c) \<and> r \<noteq> c \<and> length (members s r) = 1
                            then None else activeRooms s r)\<rparr>,
      concat (map (\<lambda>r. if r \<noteq> c then socket_to s c r (UserLeft (username s c)) else [])
                  (socket_rooms s c)))"
  using leave_rooms_upd [where s = s and A = "activeRooms s" and c = c and rs = "socket_rooms s c"]
  by (simp add: disconnecting_def)

subsection \<open>Teardown\<close>

lemma del_member_frame [simp]:
  "activeRooms (del_member s c r) = activeRooms s"
  "sockets (del_member s c r) = sockets s"
  "sids (del_member s c r) = sids s"
  by (simp_all add: del_member_def Let_def split: option.splits)

lemma members_del_member [simp]:
  "members (del_member s c r) r' =
     (if r' = r then filter (\<lambda>m. m \<noteq> c) (members s r) else members s r')"
  by (simp add: del_member_def members_def Let_def split: option.splits)

lemma foldl_del_member_frame [simp]:
  "activeRooms (foldl (\<lambda>a r. del_member a c r) s rs) = activeRooms s"
  "sockets (foldl (\<lambda>a r. del_member a c r) s rs) = sockets s"
  "sids (foldl (\<lambda>a r. del_member a c r) s rs) = sids s"
  by (induction rs arbitrary: s) simp_all

lemma members_foldl_del_member:
  "members (foldl (\<lambda>a r. del_member a c r) s rs) r' =
     (if r' \<in> set rs then filter (\<lambda>m. m \<noteq> c) (members s r') else members s r')"
  by (induction rs arbitrary: s) auto

lemma teardown_frame [simp]:
  "activeRooms (transport_teardown s c) = activeRooms s"
  "sockets (transport_teardown s c) = (sockets s)(c := None)"
  "sids (transport_teardown s c) = (sids s)(c := None)"
  by (simp_all add: transport_teardown_def Let_def)

lemma members_teardown_raw:
  "members (transport_teardown s c) r =
     (if r \<in> set (socket_rooms s c) then filter (\<lambda>m. m \<noteq> c) (members s r) else members s r)"
proof -
  have "members (transport_teardown s c) r =
        members (foldl (\<lambda>a r. del_member a c r) s (socket_rooms s c)) r"
    by (simp add: transport_teardown_def Let_def members_def)
  then show ?thesis by (simp add: members_foldl_del_member)
qed

lemma members_teardown:
  assumes "well_formed s"
  shows "members (transport_teardown s c) r = filter (\<lambda>m. m \<noteq> c) (members s r)"
proof (cases "r \<in> set (socket_rooms s c)")
  case True
  then show ?thesis by (simp add: members_teardown_raw)
next
  case False
  with assms have "c \<notin> set (members s r)" by (simp add: well_formed_def)
  then have "filter (\<lambda>m. m \<noteq> c) (members s r) = members s r"
    by (auto simp: filter_id_conv)
  with False show ?thesis by (simp add: members_teardown_raw)
qed

lemma socket_rooms_teardown:
  "socket_rooms (transport_teardown s c) c' = (if c' = c then [] else socket_rooms s c')"
  by (simp add: socket_rooms_def)

lemma well_formed_teardown:
  assumes "well_formed s"
  shows "well_formed (transport_teardown s c)"
  using assms unfolding well_formed_def
  by (auto simp: members_teardown [OF assms] socket_rooms_teardown)

lemma disconnect_eq:
  "disconnect s c = (transport_teardown (fst (disconnecting s c)) c, snd (disconnecting s c))"
  by (simp add: disconnect_def split: prod.splits)

lemma well_formed_disconnect: "well_formed s \<Longrightarrow> well_formed (fst (disconnect s c))"
  by (simp add: disconnect_eq disconnecting_eq well_formed_teardown)


subsection \<open>The branches of \<open>join-room\<close>\<close>

lemma room_data_own: "activeRooms s r = Some t \<Longrightarrow> room_data s r = Some (Some t)"
  by (simp add: room_data_def)

lemma room_data_Some_Some: "room_data s r = Some (Some t) \<longleftrightarrow> activeRooms s r = Some t"
  by (simp add: room_data_def split: option.splits)

lemma room_data_None: "room_data s r = None \<Longrightarrow> activeRooms s r = None"
  by (simp add: room_data_def split: option.splits)

lemma room_data_cong: "activeRooms s' = activeRooms s \<Longrightarrow> room_data s' = room_data s"
  by (simp add: room_data_def fun_eq_iff)

lemma room_data_upd:
  "room_data (s\<lparr>activeRooms := (activeRooms s)(r \<mapsto> k)\<rparr>) r' =
     (if r' = r then Some (Some k) else room_data s r')"
  by (simp add: room_data_def)

lemma room_size_ge2_members: "room_size_ge2 s r = (2 \<le> length (members s r))"
  by (simp add: room_size_ge2_def members_def split: option.splits)

lemma join_room_fresh:
  "room_data s r = None \<Longrightarrow>
   join_room s c r u k = do_join (s\<lparr>activeRooms := (activeRooms s)(r \<mapsto> k)\<rparr>) c r u"
  by (simp add: join_room_def)

lemma join_room_mismatch:
  "room_data s r = Some ty \<Longrightarrow> ty \<noteq> Some k \<Longrightarrow>
   join_room s c r u k = (s, [(c, RoomTypeMismatch ty k)])"
  by (simp add: join_room_def socket_emit_def)

lemma join_room_full:
  "activeRooms s r = Some ''private'' \<Longrightarrow> 2 \<le> length (members s r) \<Longrightarrow>
   join_room s c r u ''private'' = (s, [(c, RoomFull)])"
  by (simp add: join_room_def room_data_own socket_emit_def room_size_ge2_members)

lemma join_room_existing:
  "activeRooms s r = Some k \<Longrightarrow> \<not> (k = ''private'' \<and> 2 \<le> length (members s r)) \<Longrightarrow>
   join_room s c r u k = do_join s c r u"
  by (auto simp: join_room_def room_data_own room_size_ge2_members)

text \<open>The four ways through the handler of \<open>server.js\<close>, the three of the strict one.\<close>

lemma join_room_cases:
  obtains
    (fresh) "room_data s r = None"
      "join_room s c r u k = do_join (s\<lparr>activeRooms := (activeRooms s)(r \<mapsto> k)\<rparr>) c r u"
  | (mismatch) ty where "room_data s r = Some ty" "ty \<noteq> Some k"
      "join_room s c r u k = (s, [(c, RoomTypeMismatch ty k)])"
  | (full) "activeRooms s r = Some ''private''" "k = ''private''" "2 \<le> length (members s r)"
      "join_room s c r u k = (s, [(c, RoomFull)])"
  | (joined) "activeRooms s r = Some k" "\<not> (k = ''private'' \<and> 2 \<le> length (members s r))"
      "join_room s c r u k = do_join s c r u"
proof (cases "room_data s r")
  case None
  then show ?thesis using fresh join_room_fresh by blast
next
  case (Some ty)
  show ?thesis
  proof (cases "ty = Some k")
    case False
    with Some show ?thesis using mismatch join_room_mismatch by blast
  next
    case True
    with Some have own: "activeRooms s r = Some k" by (simp add: room_data_Some_Some)
    show ?thesis
    proof (cases "k = ''private'' \<and> 2 \<le> length (members s r)")
      case True
      with own show ?thesis using full join_room_full by blast
    next
      case False
      with own show ?thesis using joined join_room_existing by blast
    qed
  qed
qed

lemma join_room_strict_cases:
  obtains
    (notfound) "room_data s r = None" "join_room_strict s c r u = (s, [(c, RoomNotFound)])"
  | (full) "activeRooms s r = Some ''private''" "2 \<le> length (members s r)"
      "join_room_strict s c r u = (s, [(c, RoomFull)])"
  | (joined) "activeRooms s r = Some ''private'' \<longrightarrow> length (members s r) < 2"
      "join_room_strict s c r u = do_join s c r u"
proof (cases "room_data s r")
  case None
  then have "join_room_strict s c r u = (s, [(c, RoomNotFound)])"
    by (simp add: join_room_strict_def socket_emit_def)
  with None show ?thesis using notfound by blast
next
  case (Some ty)
  show ?thesis
  proof (cases "ty = Some ''private'' \<and> 2 \<le> length (members s r)")
    case True
    with Some have "activeRooms s r = Some ''private''" by (simp add: room_data_Some_Some)
    moreover from Some True have "join_room_strict s c r u = (s, [(c, RoomFull)])"
      by (simp add: join_room_strict_def socket_emit_def room_size_ge2_members)
    ultimately show ?thesis using full True by blast
  next
    case False
    with Some have "join_room_strict s c r u = do_join s c r u"
      by (auto simp: join_room_strict_def room_size_ge2_members)
    moreover from Some False have "activeRooms s r = Some ''private'' \<longrightarrow> length (members s r) < 2"
      by (auto simp: room_data_def)
    ultimately show ?thesis using joined by blast
  qed
qed

lemma do_join_state:
  "fst (do_join s c r u) = socket_join (set_username s c u) c r"
  by (simp add: do_join_def Let_def)

lemma filter_not_in_set_add:
  "c \<in> set ex \<Longrightarrow> filter (\<lambda>m. m \<notin> set ex) (set_add c xs) = filter (\<lambda>m. m \<notin> set ex) xs"
  by (simp add: set_add_def)

text \<open>
  The deliveries of a join by a socket that is in the room named by its own id, as every
  connected socket is.
\<close>

lemma do_join_out:
  assumes "c \<in> set (members s c)"
  shows "snd (do_join s c r u) =
     map (\<lambda>m. (m, UserJoined u)) (filter (\<lambda>m. m \<notin> set (members s c)) (members s r))
     @ [(c, JoinSuccess r)]"
proof (cases "r = c")
  case True
  from assms have "set_add c (members s c) = members s c" by (simp add: set_add_def)
  with True show ?thesis
    by (simp add: do_join_def Let_def socket_to_def socket_emit_def)
next
  case False
  with assms show ?thesis
    by (simp add: do_join_def Let_def socket_to_def socket_emit_def filter_not_in_set_add)
qed

lemma well_formed_join_room:
  assumes "well_formed s" "sockets s c \<noteq> None"
  shows "well_formed (fst (join_room s c r u k))"
  using assms by (cases rule: join_room_cases [of s r c u k]) (simp_all add: well_formed_do_join)

lemma length_le1_if_subset_single:
  assumes "distinct xs" "set xs \<subseteq> {a}"
  shows "length xs \<le> 1"
proof -
  from assms(1) have "length xs = card (set xs)" by (simp add: distinct_card)
  also from assms(2) have "\<dots> \<le> card {a}" by (intro card_mono) simp_all
  finally show ?thesis by simp
qed

lemma members_do_join:
  "members (fst (do_join s c r u)) r' = (if r' = r then set_add c (members s r) else members s r')"
  by (simp add: do_join_state)

lemma activeRooms_do_join [simp]: "activeRooms (fst (do_join s c r u)) = activeRooms s"
  by (simp add: do_join_state)

lemma room_data_do_join [simp]: "room_data (fst (do_join s c r u)) = room_data s"
  by (rule room_data_cong) simp

lemma private_inv_do_join:
  assumes "private_inv s" "activeRooms s r = Some ''private'' \<longrightarrow> length (members s r) < 2"
  shows "private_inv (fst (do_join s c r u))"
proof -
  have "length (set_add c (members s r)) \<le> 2" if "activeRooms s r = Some ''private''"
    using that assms(2) length_set_add [of c "members s r"] by simp
  with assms(1) show ?thesis
    unfolding private_inv_def by (auto simp: members_do_join)
qed

lemma dir_inv_private: "dir_inv s \<Longrightarrow> private_inv s"
  by (simp add: dir_inv_def private_inv_def)

lemma dir_inv_do_join_fresh:
  assumes "well_formed s" "dir_inv s" "room_data s r = None"
  shows "dir_inv (fst (do_join (s\<lparr>activeRooms := (activeRooms s)(r \<mapsto> k)\<rparr>) c r u))"
proof -
  from assms have "set (members s r) \<subseteq> {r}" by (simp add: dir_inv_def)
  moreover from assms(1) have "distinct (members s r)" by (simp add: well_formed_def)
  ultimately have "length (members s r) \<le> 1" by (rule length_le1_if_subset_single [rotated])
  with length_set_add [of c "members s r"] have "length (set_add c (members s r)) \<le> 2" by simp
  with assms(2) show ?thesis
    unfolding dir_inv_def by (simp add: members_do_join room_data_upd)
qed

lemma dir_inv_do_join_existing:
  assumes "dir_inv s" "activeRooms s r = Some k" "\<not> (k = ''private'' \<and> 2 \<le> length (members s r))"
  shows "dir_inv (fst (do_join s c r u))"
proof -
  have "length (set_add c (members s r)) \<le> 2" if "k = ''private''"
    using that assms(3) length_set_add [of c "members s r"] by simp
  moreover from assms(2) have "room_data s r \<noteq> None" by (simp add: room_data_own)
  ultimately show ?thesis
    using assms(1,2) unfolding dir_inv_def by (auto simp: members_do_join)
qed

lemma dir_inv_join_room:
  assumes "well_formed s" "dir_inv s"
  shows "dir_inv (fst (join_room s c r u k))"
  using assms
  by (cases rule: join_room_cases [of s r c u k])
     (simp_all add: dir_inv_do_join_fresh dir_inv_do_join_existing)

subsection \<open>The directory invariant under connect and disconnect\<close>

lemma members_connect:
  "members (transport_connect s c) r = (if r = c then set_add c (members s c) else members s r)"
  by (simp add: transport_connect_def members_def socket_join_def)

lemma activeRooms_connect [simp]: "activeRooms (transport_connect s c) = activeRooms s"
  by (simp add: transport_connect_def)

lemma room_data_connect [simp]: "room_data (transport_connect s c) = room_data s"
  by (rule room_data_cong) simp

lemma dir_inv_connect:
  assumes "dir_inv s" "rooms s c = None"
  shows "dir_inv (transport_connect s c)"
proof -
  from assms(2) have "members s c = []" by (simp add: members_def)
  with assms(1) show ?thesis
    unfolding dir_inv_def by (auto simp: members_connect set_add_def)
qed

lemma private_inv_connect:
  assumes "private_inv s" "rooms s c = None"
  shows "private_inv (transport_connect s c)"
proof -
  from assms(2) have "members s c = []" by (simp add: members_def)
  with assms(1) show ?thesis
    unfolding private_inv_def by (auto simp: members_connect set_add_def)
qed

lemma activeRooms_disconnect:
  "activeRooms (fst (disconnect s c)) r =
     (if r \<in> set (socket_rooms s c) \<and> r \<noteq> c \<and> length (members s r) = 1 then None
      else activeRooms s r)"
  by (simp add: disconnect_eq disconnecting_eq)

lemma members_disconnect:
  assumes "well_formed s"
  shows "members (fst (disconnect s c)) r = filter (\<lambda>m. m \<noteq> c) (members s r)"
proof -
  let ?s1 = "fst (disconnecting s c)"
  have w: "well_formed ?s1" using assms by (simp add: disconnecting_eq)
  have "members ?s1 = members s" by (simp add: disconnecting_eq)
  with members_teardown [OF w, of c r] show ?thesis by (simp add: disconnect_eq)
qed

lemma sole_member:
  assumes "well_formed s" "r \<in> set (socket_rooms s c)" "length (members s r) = 1"
  shows "members s r = [c]"
proof -
  from assms(1,2) have "c \<in> set (members s r)" by (simp add: well_formed_def)
  with assms(3) show ?thesis by (cases "members s r") auto
qed

lemma private_inv_disconnect:
  assumes "well_formed s" "private_inv s"
  shows "private_inv (fst (disconnect s c))"
  unfolding private_inv_def
proof (intro allI impI)
  fix r assume a: "activeRooms (fst (disconnect s c)) r = Some ''private''"
  then have "activeRooms s r = Some ''private''"
    by (simp add: activeRooms_disconnect split: if_splits)
  with assms(2) have "length (members s r) \<le> 2" by (simp add: private_inv_def)
  moreover have "length (filter (\<lambda>m. m \<noteq> c) (members s r)) \<le> length (members s r)"
    by (rule length_filter_le)
  ultimately have "length (filter (\<lambda>m. m \<noteq> c) (members s r)) \<le> 2"
    by (rule order_trans [rotated])
  then show "length (members (fst (disconnect s c)) r) \<le> 2"
    by (simp add: members_disconnect [OF assms(1)])
qed

lemma dir_inv_disconnect:
  assumes "well_formed s" "dir_inv s"
  shows "dir_inv (fst (disconnect s c))"
proof -
  have "set (members (fst (disconnect s c)) r) \<subseteq> {r}"
    if a: "room_data (fst (disconnect s c)) r = None" for r
  proof (cases "r \<in> set (socket_rooms s c) \<and> r \<noteq> c \<and> length (members s r) = 1")
    case True
    with assms(1) have "members s r = [c]" by (simp add: sole_member)
    then show ?thesis by (simp add: members_disconnect [OF assms(1)])
  next
    case False
    then have "activeRooms (fst (disconnect s c)) r = activeRooms s r"
      by (auto simp: activeRooms_disconnect)
    with a have "room_data s r = None" by (auto simp: room_data_def split: option.splits)
    with assms(2) have "set (members s r) \<subseteq> {r}" by (simp add: dir_inv_def)
    then show ?thesis by (auto simp: members_disconnect [OF assms(1)])
  qed
  moreover from assms have "private_inv (fst (disconnect s c))"
    by (simp add: private_inv_disconnect dir_inv_private)
  ultimately show ?thesis by (simp add: dir_inv_def private_inv_def)
qed

subsection \<open>Reachable states of \<open>server.js\<close>\<close>

lemma well_formed_handle:
  "well_formed s \<Longrightarrow> admissible s q \<Longrightarrow> well_formed (fst (handle s q))"
  by (cases q)
     (simp_all add: well_formed_connect well_formed_join_room well_formed_disconnect
        chat_message_def message_seen_def typing_def)

lemma dir_inv_handle:
  "well_formed s \<Longrightarrow> dir_inv s \<Longrightarrow> admissible s q \<Longrightarrow> dir_inv (fst (handle s q))"
  by (cases q)
     (simp_all add: dir_inv_connect dir_inv_join_room dir_inv_disconnect
        chat_message_def message_seen_def typing_def)

lemma dir_inv_init: "dir_inv init_state"
  by (simp add: dir_inv_def init_state_def members_def)

lemma reachable_invariants: "reachable s \<Longrightarrow> well_formed s \<and> dir_inv s"
proof (induction rule: reachable.induct)
  case init
  show ?case by (simp add: well_formed_init dir_inv_init)
next
  case (step s q)
  then show ?case by (simp add: well_formed_handle dir_inv_handle)
qed

lemma reachable_run:
  "reachable s \<Longrightarrow> admissible_trace s qs \<Longrightarrow> reachable (run s qs)"
  by (induction qs arbitrary: s) (auto intro: reachable.step)

subsection \<open>Reachable states of the strict variant\<close>

lemma createRoom_state:
  "fst (createRoom s c r u k) =
     socket_join (set_username (s\<lparr>activeRooms := (activeRooms s)(r \<mapsto> k)\<rparr>) c u) c r"
  by (simp add: createRoom_def Let_def)

lemma well_formed_createRoom:
  assumes "well_formed s" "sockets s c \<noteq> None"
  shows "well_formed (fst (createRoom s c r u k))"
  using assms by (simp add: createRoom_state well_formed_socket_join well_formed_set_username)

lemma private_inv_createRoom:
  assumes "private_inv s" "rooms s r = None"
  shows "private_inv (fst (createRoom s c r u k))"
proof -
  from assms(2) have "members s r = []" by (simp add: members_def)
  with assms(1) show ?thesis
    unfolding private_inv_def by (simp add: createRoom_state set_add_def)
qed

lemma well_formed_join_room_strict:
  assumes "well_formed s" "sockets s c \<noteq> None"
  shows "well_formed (fst (join_room_strict s c r u))"
  using assms
  by (cases rule: join_room_strict_cases [of s r c u]) (simp_all add: well_formed_do_join)

lemma private_inv_join_room_strict:
  assumes "private_inv s"
  shows "private_inv (fst (join_room_strict s c r u))"
  using assms
  by (cases rule: join_room_strict_cases [of s r c u]) (simp_all add: private_inv_do_join)

lemma well_formed_handle_strict:
  "well_formed s \<Longrightarrow> admissible s q \<Longrightarrow> well_formed (fst (handle_strict s q))"
  by (cases q)
     (simp_all add: well_formed_connect well_formed_join_room_strict well_formed_createRoom
        well_formed_disconnect chat_message_def message_seen_def typing_def)

lemma private_inv_handle_strict:
  "well_formed s \<Longrightarrow> private_inv s \<Longrightarrow> admissible s q \<Longrightarrow> private_inv (fst (handle_strict s q))"
  by (cases q)
     (simp_all add: private_inv_connect private_inv_join_room_strict private_inv_createRoom
        private_inv_disconnect chat_message_def message_seen_def typing_def)

lemma reachable_strict_invariants: "reachable_strict s \<Longrightarrow> well_formed s \<and> private_inv s"
proof (induction rule: reachable_strict.induct)
  case init_strict
  have "private_inv init_state" by (simp add: private_inv_def init_state_def)
  with well_formed_init show ?case by simp
next
  case (step_strict s q)
  then show ?case by (simp add: well_formed_handle_strict private_inv_handle_strict)
qed

lemma reachable_strict_run:
  "reachable_strict s \<Longrightarrow> admissible_trace_strict s qs \<Longrightarrow> reachable_strict (run_strict s qs)"
  by (induction qs arbitrary: s) (auto intro: reachable_strict.step_strict)

text \<open>A connected socket of a reachable state is in the room named by its own id.\<close>

lemma own_room:
  "reachable s \<or> reachable_strict s \<Longrightarrow> sockets s c \<noteq> None \<Longrightarrow> c \<in> set (members s c)"
  using reachable_invariants reachable_strict_invariants
  by (auto simp: well_formed_def)

subsection \<open>Evaluation of the scenarios\<close>

lemmas ev =
  init_state_def transport_connect_def socket_join_def set_add_def members_def
  socket_rooms_def username_def set_username_def socket_emit_def socket_to_def io_to_def
  del_member_def transport_teardown_def do_join_def room_size_ge2_def join_room_def
  chat_message_def message_seen_def typing_def leave_room_def disconnecting_def
  disconnect_def createRoom_def join_room_strict_def room_data_def
  object_prototype_names_def Let_def

lemma reachable_scenario_private: "reachable scenario_private"
  unfolding scenario_private_def
  by (rule reachable_run [OF reachable.init]) (simp add: trace_private_def ev)

lemma reachable_scenario_private_strict: "reachable_strict scenario_private_strict"
  unfolding scenario_private_strict_def
  by (rule reachable_strict_run [OF reachable_strict.init_strict])
     (simp add: trace_private_strict_def ev)

lemma scenario_private_r1:
  "activeRooms scenario_private ''r1'' = Some ''private''"
  "members scenario_private ''r1'' = [''X'', ''Y'']"
  by (simp_all add: scenario_private_def trace_private_def ev)

lemma scenario_private_strict_r1:
  "activeRooms scenario_private_strict ''r1'' = Some ''private''"
  "members scenario_private_strict ''r1'' = [''X'', ''Y'']"
  by (simp_all add: scenario_private_strict_def trace_private_strict_def ev)

lemma reachable_scenario_group: "reachable scenario_group"
  unfolding scenario_group_def
  by (rule reachable_run [OF reachable.init]) (simp add: trace_group_def ev)

lemma reachable_scenario_chat: "reachable scenario_chat"
  unfolding scenario_chat_def
  by (rule reachable_run [OF reachable_scenario_group])
     (simp add: scenario_group_def trace_group_def ev)

lemma reachable_scenario_solo: "reachable scenario_solo"
  unfolding scenario_solo_def by (rule reachable_run [OF reachable.init]) (simp add: ev)

lemma scenario_group_facts:
  "activeRooms scenario_group ''abc123'' = Some ''group''"
  "members scenario_group ''abc123'' = [''X'']"
  "members scenario_group ''Y'' = [''Y'']"
  "sockets scenario_group ''Y'' = Some None"
  by (simp_all add: scenario_group_def trace_group_def ev)

lemma scenario_chat_facts:
  "members scenario_chat ''abc123'' = [''X'', ''Y'']"
  "socket_rooms scenario_chat ''X'' = [''X'', ''abc123'']"
  "members scenario_chat ''X'' = [''X'']"
  "members scenario_chat ''Y'' = [''Y'']"
  "members scenario_chat ''Z'' = [''Z'']"
  "username scenario_chat ''X'' = Some ''alice''"
  "username scenario_chat ''Y'' = Some ''bob''"
  "sockets scenario_chat ''X'' = Some (Some ''alice'')"
  "sockets scenario_chat ''Y'' = Some (Some ''bob'')"
  "sockets scenario_chat ''Z'' = Some None"
  "sockets scenario_chat ''gone'' = None"
  "username scenario_chat ''Z'' = None"
  "activeRooms scenario_chat ''abc123'' = Some ''group''"
  by (simp_all add: scenario_chat_def scenario_group_def trace_group_def ev)

lemma scenario_solo_facts:
  "members scenario_solo ''solo'' = [''X'']"
  "members scenario_solo ''X'' = [''X'']"
  "socket_rooms scenario_solo ''X'' = [''X'', ''solo'']"
  "activeRooms scenario_solo ''solo'' = Some ''group''"
  "sockets scenario_solo ''X'' = Some (Some ''alice'')"
  by (simp_all add: scenario_solo_def ev)

lemma scenario_connected_fresh:
  "activeRooms scenario_connected ''r1'' = None"
  "room_data scenario_connected ''r1'' = None"
  by (simp_all add: scenario_connected_def ev)

section \<open>The claims\<close>

subsection \<open>Rejected joins\<close>

lemma do_join_not_rejection: "x \<in> set (snd (do_join s c r u)) \<Longrightarrow> \<not> is_rejection (snd x)"
  by (auto simp: do_join_def Let_def socket_to_def socket_emit_def is_rejection_def)

lemma join_room_outcome:
  "(\<exists>A. join_room s c r u k = do_join (s\<lparr>activeRooms := A\<rparr>) c r u)
   \<or> (\<exists>e. is_rejection e \<and> join_room s c r u k = (s, [(c, e)]))"
proof (cases rule: join_room_cases [of s r c u k])
  case fresh
  then show ?thesis by blast
next
  case (mismatch ty)
  have "is_rejection (RoomTypeMismatch ty k)" by (simp add: is_rejection_def)
  with mismatch show ?thesis by blast
next
  case full
  have "is_rejection RoomFull" by (simp add: is_rejection_def)
  with full show ?thesis by blast
next
  case joined
  have "s = s\<lparr>activeRooms := activeRooms s\<rparr>" by simp
  with joined have "join_room s c r u k = do_join (s\<lparr>activeRooms := activeRooms s\<rparr>) c r u"
    by simp
  then show ?thesis by blast
qed

lemma join_room_strict_outcome:
  "join_room_strict s c r u = do_join s c r u
   \<or> (\<exists>e. is_rejection e \<and> join_room_strict s c r u = (s, [(c, e)]))"
proof (cases rule: join_room_strict_cases [of s r c u])
  case notfound
  have "is_rejection RoomNotFound" by (simp add: is_rejection_def)
  with notfound show ?thesis by blast
next
  case full
  have "is_rejection RoomFull" by (simp add: is_rejection_def)
  with full show ?thesis by blast
next
  case joined
  then show ?thesis by blast
qed

lemma rejected_shape:
  assumes "f = do_join s0 c r u \<or> (\<exists>e. is_rejection e \<and> f = (s, [(c, e)]))"
    and "f = (s', out)" and "\<exists>x \<in> set out. is_rejection (snd x)"
  shows "s' = s \<and> (\<exists>e. is_rejection e \<and> out = [(c, e)])"
  using assms(1)
proof
  assume "f = do_join s0 c r u"
  with assms(2) have "out = snd (do_join s0 c r u)" by simp
  with assms(3) do_join_not_rejection show ?thesis by blast
next
  assume "\<exists>e. is_rejection e \<and> f = (s, [(c, e)])"
  with assms(2) show ?thesis by auto
qed

text \<open>
  Claim C7. Whenever a \<open>join-room\<close> request is turned down (its output holds a
  \<open>room-type-mismatch\<close>, \<open>room-full\<close> or, in the strict variant,
  \<open>room-not-found\<close> event), that event is the only delivery, it goes to the requesting
  connection, and the whole state (\<open>activeRooms\<close>, all memberships, all display
  names) is what it was.
\<close>

theorem rejected_join_no_effect:
  "(join_room s c r u k = (s', out) \<and> (\<exists>x \<in> set out. is_rejection (snd x))
      \<longrightarrow> s' = s \<and> (\<exists>e. is_rejection e \<and> out = [(c, e)]))
   \<and> (join_room_strict s c r u = (s', out) \<and> (\<exists>x \<in> set out. is_rejection (snd x))
      \<longrightarrow> s' = s \<and> (\<exists>e. is_rejection e \<and> out = [(c, e)]))"
proof -
  have A: "s' = s \<and> (\<exists>e. is_rejection e \<and> out = [(c, e)])"
    if a: "join_room s c r u k = (s', out)" "\<exists>x \<in> set out. is_rejection (snd x)"
  proof -
    from join_room_outcome [of s c r u k] obtain A where
      "join_room s c r u k = do_join (s\<lparr>activeRooms := A\<rparr>) c r u
       \<or> (\<exists>e. is_rejection e \<and> join_room s c r u k = (s, [(c, e)]))" by blast
    then show ?thesis using a by (rule rejected_shape)
  qed
  have B: "s' = s \<and> (\<exists>e. is_rejection e \<and> out = [(c, e)])"
    if a: "join_room_strict s c r u = (s', out)" "\<exists>x \<in> set out. is_rejection (snd x)"
    using join_room_strict_outcome [of s c r u] a by (rule rejected_shape)
  from A B show ?thesis by blast
qed

theorem rejected_join_no_effect_witness:
  "(\<exists>x \<in> set (snd (join_room scenario_private ''Z'' ''r1'' ''zed'' ''group'')). is_rejection (snd x))
   \<and> fst (join_room scenario_private ''Z'' ''r1'' ''zed'' ''group'') = scenario_private
   \<and> snd (join_room scenario_private ''Z'' ''r1'' ''zed'' ''group'')
       = [(''Z'', RoomTypeMismatch (Some ''private'') ''group'')]
   \<and> (\<exists>x \<in> set (snd (join_room_strict scenario_private_strict ''Z'' ''r1'' ''zed'')). is_rejection (snd x))
   \<and> fst (join_room_strict scenario_private_strict ''Z'' ''r1'' ''zed'') = scenario_private_strict
   \<and> snd (join_room_strict scenario_private_strict ''Z'' ''r1'' ''zed'') = [(''Z'', RoomFull)]"
proof -
  let ?J = "join_room scenario_private ''Z'' ''r1'' ''zed'' ''group''"
  let ?K = "join_room_strict scenario_private_strict ''Z'' ''r1'' ''zed''"
  have j: "snd ?J = [(''Z'', RoomTypeMismatch (Some ''private'') ''group'')]"
    by (simp add: join_room_mismatch [OF room_data_own [OF scenario_private_r1(1)]])
  have k: "snd ?K = [(''Z'', RoomFull)]"
    by (simp add: join_room_strict_def room_size_ge2_members scenario_private_strict_r1
          room_data_own socket_emit_def)
  have hj: "\<exists>x \<in> set (snd ?J). is_rejection (snd x)" by (simp add: j is_rejection_def)
  have hk: "\<exists>x \<in> set (snd ?K). is_rejection (snd x)" by (simp add: k is_rejection_def)
  from rejected_join_no_effect [of scenario_private "''Z''" "''r1''" "''zed''" "''group''" "fst ?J" "snd ?J"] hj
  have "fst ?J = scenario_private" by simp
  moreover
  from rejected_join_no_effect [of scenario_private_strict "''Z''" "''r1''" "''zed''" _ "fst ?K" "snd ?K"] hk
  have "fst ?K = scenario_private_strict" by simp
  ultimately show ?thesis using j k hj hk by blast
qed

subsection \<open>The capacity of a private room\<close>

text \<open>
  Claim C2. In every state that \<open>server.js\<close> or the strict variant can reach, a room
  entered in \<open>activeRooms\<close> as \<open>private\<close> has at most two members. A
  \<open>join-room\<close> request for a private room that has two members (in \<open>server.js\<close>
  the request names the type \<open>private\<close>; the strict variant's request carries no
  type) is answered with \<open>room-full\<close> to the requester alone and changes nothing.
\<close>

theorem private_room_capacity:
  "((reachable s \<or> reachable_strict s) \<and> activeRooms s r = Some ''private''
      \<longrightarrow> length (members s r) \<le> 2)
   \<and> (activeRooms s r = Some ''private'' \<and> length (members s r) = 2
      \<longrightarrow> join_room s c r u ''private'' = (s, [(c, RoomFull)])
        \<and> join_room_strict s c r u = (s, [(c, RoomFull)]))"
proof -
  have A: "length (members s r) \<le> 2"
    if "reachable s \<or> reachable_strict s" "activeRooms s r = Some ''private''"
  proof -
    from that(1) have "private_inv s"
      using reachable_invariants reachable_strict_invariants dir_inv_private by blast
    with that(2) show ?thesis by (simp add: private_inv_def)
  qed
  have B: "join_room s c r u ''private'' = (s, [(c, RoomFull)])
        \<and> join_room_strict s c r u = (s, [(c, RoomFull)])"
    if "activeRooms s r = Some ''private''" "length (members s r) = 2"
    using that
    by (auto simp: join_room_def join_room_strict_def room_data_own room_size_ge2_members
          socket_emit_def)
  from A B show ?thesis by blast
qed

theorem private_room_capacity_witness:
  "reachable scenario_private \<and> activeRooms scenario_private ''r1'' = Some ''private''
   \<and> length (members scenario_private ''r1'') = 2
   \<and> join_room scenario_private ''Z'' ''r1'' ''zed'' ''private'' = (scenario_private, [(''Z'', RoomFull)])
   \<and> reachable_strict scenario_private_strict
   \<and> activeRooms scenario_private_strict ''r1'' = Some ''private''
   \<and> length (members scenario_private_strict ''r1'') \<le> 2
   \<and> join_room_strict scenario_private_strict ''Z'' ''r1'' ''zed''
       = (scenario_private_strict, [(''Z'', RoomFull)])"
proof -
  have l: "length (members scenario_private ''r1'') = 2"
    and l': "length (members scenario_private_strict ''r1'') = 2"
    by (simp_all add: scenario_private_r1 scenario_private_strict_r1)
  from private_room_capacity [of scenario_private "''r1''" "''Z''" "''zed''"]
    reachable_scenario_private scenario_private_r1(1) l
  have 1: "join_room scenario_private ''Z'' ''r1'' ''zed'' ''private'' = (scenario_private, [(''Z'', RoomFull)])"
    by simp
  from private_room_capacity [of scenario_private_strict "''r1''" "''Z''" "''zed''"]
    reachable_scenario_private_strict scenario_private_strict_r1(1) l'
  have 2: "length (members scenario_private_strict ''r1'') \<le> 2
     \<and> join_room_strict scenario_private_strict ''Z'' ''r1'' ''zed''
       = (scenario_private_strict, [(''Z'', RoomFull)])"
    by simp
  from 1 2 reachable_scenario_private reachable_scenario_private_strict
    scenario_private_r1(1) scenario_private_strict_r1(1) l
  show ?thesis by blast
qed

text \<open>
  Claim C10. The size check counts the requester too: when a private room has exactly
  two members, a \<open>join-room\<close> request of one of these two members, with the matching
  type, is answered with \<open>room-full\<close> and changes nothing, in \<open>server.js\<close> and
  in the strict variant.
\<close>

theorem rejoin_full_private_room:
  "activeRooms s r = Some ''private'' \<and> length (members s r) = 2 \<and> c \<in> set (members s r)
   \<longrightarrow> join_room s c r u ''private'' = (s, [(c, RoomFull)])
     \<and> join_room_strict s c r u = (s, [(c, RoomFull)])"
  by (auto simp: join_room_def join_room_strict_def room_data_own room_size_ge2_members
        socket_emit_def)

theorem rejoin_full_private_room_witness:
  "activeRooms scenario_private ''r1'' = Some ''private''
   \<and> length (members scenario_private ''r1'') = 2
   \<and> ''X'' \<in> set (members scenario_private ''r1'')
   \<and> join_room scenario_private ''X'' ''r1'' ''alice'' ''private'' = (scenario_private, [(''X'', RoomFull)])
   \<and> activeRooms scenario_private_strict ''r1'' = Some ''private''
   \<and> length (members scenario_private_strict ''r1'') = 2
   \<and> ''Y'' \<in> set (members scenario_private_strict ''r1'')
   \<and> join_room_strict scenario_private_strict ''Y'' ''r1'' ''bob''
       = (scenario_private_strict, [(''Y'', RoomFull)])"
  using rejoin_full_private_room [of scenario_private "''r1''" "''X''" "''alice''"]
    rejoin_full_private_room [of scenario_private_strict "''r1''" "''Y''" "''bob''"]
  by (simp add: scenario_private_r1 scenario_private_strict_r1)



subsection \<open>Presence on a join\<close>

lemma scenario_intruder_facts:
  "admissible_trace init_state trace_intruder"
  "members (run init_state trace_intruder) ''abc123'' = [''Y'']"
  "members (run init_state trace_intruder) ''X'' = [''X'', ''Y'']"
  "room_data (run init_state trace_intruder) ''abc123'' = Some (Some ''group'')"
  by (simp_all add: trace_intruder_def ev)

lemma scenario_intruder_joined_facts:
  "admissible_trace init_state trace_intruder_joined"
  "members (run init_state trace_intruder_joined) ''abc123'' = [''Y'', ''X'']"
  "members (run init_state trace_intruder_joined) ''X'' = [''X'', ''Y'']"
  "socket_rooms (run init_state trace_intruder_joined) ''X'' = [''X'', ''abc123'']"
  by (simp_all add: trace_intruder_joined_def trace_intruder_def ev)

lemma scenario_intruder_outsider_facts:
  "admissible_trace init_state trace_intruder_outsider"
  "members (run init_state trace_intruder_outsider) ''abc123'' = [''X'', ''Y'']"
  "members (run init_state trace_intruder_outsider) ''Z'' = [''Z'', ''Y'']"
  "username (run init_state trace_intruder_outsider) ''Z'' = None"
  by (simp_all add: trace_intruder_outsider_def ev)

text \<open>
  Claim C4, as amended. When a \<open>join-room\<close> request of a connection succeeds in a
  reachable state of \<open>server.js\<close> (the requester is sent \<open>join-success\<close> with the
  room id), the deliveries are exactly: one \<open>user-joined\<close> with the requested display
  name to each connection that was a member of the room before the request and is not a
  member of the room named by the requester's id, and then the one \<open>join-success\<close> to
  the requester. The requester is sent nothing else, so no \<open>user-joined\<close> for its own
  join; and when nobody else is in the room named by the requester's id, every member of
  the room before the request but the requester is sent \<open>user-joined\<close>.
\<close>

theorem join_presence_routing:
  "reachable s \<and> sockets s c \<noteq> None \<and> join_room s c r u k = (s', out)
     \<and> (c, JoinSuccess r) \<in> set out
   \<longrightarrow> out = map (\<lambda>m. (m, UserJoined u)) (filter (\<lambda>m. m \<notin> set (members s c)) (members s r))
             @ [(c, JoinSuccess r)]
     \<and> (\<forall>e. (c, e) \<in> set out \<longrightarrow> e = JoinSuccess r)
     \<and> (members s c = [c] \<longrightarrow>
          out = map (\<lambda>m. (m, UserJoined u)) (filter (\<lambda>m. m \<noteq> c) (members s r))
                @ [(c, JoinSuccess r)])"
proof (intro impI)
  assume a: "reachable s \<and> sockets s c \<noteq> None \<and> join_room s c r u k = (s', out)
     \<and> (c, JoinSuccess r) \<in> set out"
  then have own: "c \<in> set (members s c)" using own_room by blast
  have "\<not> is_rejection (JoinSuccess r)" by (simp add: is_rejection_def)
  with a join_room_outcome [of s c r u k]
  obtain A where "join_room s c r u k = do_join (s\<lparr>activeRooms := A\<rparr>) c r u" by auto
  with a have "out = snd (do_join (s\<lparr>activeRooms := A\<rparr>) c r u)" by simp
  with own have o: "out = map (\<lambda>m. (m, UserJoined u))
       (filter (\<lambda>m. m \<notin> set (members s c)) (members s r)) @ [(c, JoinSuccess r)]"
    by (simp add: do_join_out)
  from o own have 1: "\<forall>e. (c, e) \<in> set out \<longrightarrow> e = JoinSuccess r" by auto
  from o have 2: "out = map (\<lambda>m. (m, UserJoined u)) (filter (\<lambda>m. m \<noteq> c) (members s r))
       @ [(c, JoinSuccess r)]" if "members s c = [c]"
    using that by simp
  from o 1 2 show "out = map (\<lambda>m. (m, UserJoined u))
       (filter (\<lambda>m. m \<notin> set (members s c)) (members s r)) @ [(c, JoinSuccess r)]
     \<and> (\<forall>e. (c, e) \<in> set out \<longrightarrow> e = JoinSuccess r)
     \<and> (members s c = [c] \<longrightarrow>
          out = map (\<lambda>m. (m, UserJoined u)) (filter (\<lambda>m. m \<noteq> c) (members s r))
                @ [(c, JoinSuccess r)])"
    by blast
qed

text \<open>
  Claim C4 as stated fails where a member of the room has joined the room named by the
  joiner's id: \<open>Y\<close> is a member of \<open>abc123\<close> and of the room \<open>X\<close>, and the join of
  \<open>X\<close> to \<open>abc123\<close> sends \<open>join-success\<close> to \<open>X\<close> and nothing to \<open>Y\<close>.
\<close>

theorem join_skips_member_of_own_id_room:
  "admissible_trace init_state trace_intruder
   \<and> members (run init_state trace_intruder) ''abc123'' = [''Y'']
   \<and> join_room (run init_state trace_intruder) ''X'' ''abc123'' ''alice'' ''group''
       = (run init_state trace_intruder_joined, [(''X'', JoinSuccess ''abc123'')])"
  by (simp add: trace_intruder_joined_def trace_intruder_def ev)

theorem join_presence_routing_witness:
  "reachable scenario_group \<and> sockets scenario_group ''Y'' = Some None
   \<and> (''Y'', JoinSuccess ''abc123'') \<in> set (snd (join_room scenario_group ''Y'' ''abc123'' ''bob'' ''group''))
   \<and> members scenario_group ''Y'' = [''Y'']
   \<and> snd (join_room scenario_group ''Y'' ''abc123'' ''bob'' ''group'')
       = [(''X'', UserJoined ''bob''), (''Y'', JoinSuccess ''abc123'')]"
proof -
  let ?J = "join_room scenario_group ''Y'' ''abc123'' ''bob'' ''group''"
  have e: "?J = do_join scenario_group ''Y'' ''abc123'' ''bob''"
    by (rule join_room_existing) (simp_all add: scenario_group_facts)
  have h: "(''Y'', JoinSuccess ''abc123'') \<in> set (snd ?J)"
    unfolding e by (simp add: do_join_out scenario_group_facts)
  have p: "?J = (fst ?J, snd ?J)" by simp
  have c: "sockets scenario_group ''Y'' \<noteq> None" by (simp add: scenario_group_facts)
  from join_presence_routing [of scenario_group "''Y''" "''abc123''" "''bob''" "''group''" "fst ?J" "snd ?J"]
    reachable_scenario_group c p h
  have "snd ?J = map (\<lambda>m. (m, UserJoined ''bob''))
          (filter (\<lambda>m. m \<notin> set (members scenario_group ''Y'')) (members scenario_group ''abc123''))
        @ [(''Y'', JoinSuccess ''abc123'')]" by blast
  then have "snd ?J = [(''X'', UserJoined ''bob''), (''Y'', JoinSuccess ''abc123'')]"
    by (simp add: scenario_group_facts)
  with h reachable_scenario_group show ?thesis by (simp add: scenario_group_facts)
qed

subsection \<open>Relaying chat messages and read receipts\<close>

text \<open>
  Claim C5, as amended. In \<open>server.js\<close> and the strict variant a \<open>chat-message\<close>
  goes to the members of the target room that are not members of the room named by the
  sender's id, and the \<open>read-receipt\<close> sent on \<open>message-seen\<close> goes to the same
  connections and carries the message identifier only. So in a reachable state the
  sender is never sent its own \<open>chat-message\<close>, and when nobody else is in the room
  named by the sender's id, every member of the target room but the sender is sent the
  event. The earliest variant sends \<open>chat-message\<close> to every member of the room, the
  sender included (and has no \<open>message-seen\<close> handler).
\<close>

theorem chat_and_receipt_routing:
  "chat_message s c r m i
     = (s, map (\<lambda>x. (x, ChatMessage m i c (username s c)))
             (filter (\<lambda>x. x \<notin> set (members s c)) (members s r)))
   \<and> message_seen s c r i
     = (s, map (\<lambda>x. (x, ReadReceipt i)) (filter (\<lambda>x. x \<notin> set (members s c)) (members s r)))
   \<and> ((reachable s \<or> reachable_strict s) \<and> sockets s c \<noteq> None
        \<longrightarrow> c \<notin> fst ` set (snd (chat_message s c r m i)))
   \<and> (members s c = [c]
        \<longrightarrow> chat_message s c r m i
              = (s, map (\<lambda>x. (x, ChatMessage m i c (username s c)))
                      (filter (\<lambda>x. x \<noteq> c) (members s r)))
          \<and> message_seen s c r i
              = (s, map (\<lambda>x. (x, ReadReceipt i)) (filter (\<lambda>x. x \<noteq> c) (members s r))))
   \<and> chat_message_v0 s c r m = (s, map (\<lambda>x. (x, ChatMessageV0 m c)) (members s r))"
proof -
  have 1: "chat_message s c r m i
     = (s, map (\<lambda>x. (x, ChatMessage m i c (username s c)))
             (filter (\<lambda>x. x \<notin> set (members s c)) (members s r)))"
    by (simp add: chat_message_def socket_to_def)
  have 2: "message_seen s c r i
     = (s, map (\<lambda>x. (x, ReadReceipt i)) (filter (\<lambda>x. x \<notin> set (members s c)) (members s r)))"
    by (simp add: message_seen_def socket_to_def)
  have 3: "c \<notin> fst ` set (snd (chat_message s c r m i))"
    if "reachable s \<or> reachable_strict s" "sockets s c \<noteq> None"
  proof -
    from that have "c \<in> set (members s c)" by (rule own_room)
    then show ?thesis by (auto simp: 1)
  qed
  have 4: "chat_message s c r m i
              = (s, map (\<lambda>x. (x, ChatMessage m i c (username s c)))
                      (filter (\<lambda>x. x \<noteq> c) (members s r)))
          \<and> message_seen s c r i
              = (s, map (\<lambda>x. (x, ReadReceipt i)) (filter (\<lambda>x. x \<noteq> c) (members s r)))"
    if "members s c = [c]"
    using that by (simp add: 1 2)
  have 5: "chat_message_v0 s c r m = (s, map (\<lambda>x. (x, ChatMessageV0 m c)) (members s r))"
    by (simp add: chat_message_v0_def io_to_def)
  from 1 2 3 4 5 show ?thesis by blast
qed

text \<open>
  Claim C5 as stated fails on the earliest variant: a connection that is a member of the
  room it writes to receives its own \<open>chat-message\<close>. And in \<open>server.js\<close> a member
  of the target room that has joined the room named by the sender's id is not sent the
  message: \<open>X\<close> and \<open>Y\<close> are in \<open>abc123\<close>, \<open>Y\<close> also in the room \<open>X\<close>, and a
  message of \<open>X\<close> is delivered to nobody.
\<close>

theorem chat_v0_reaches_sender:
  "(''A'', ChatMessageV0 ''hi'' ''A'') \<in> set (snd (chat_message_v0 scenario_v0 ''A'' ''r'' ''hi''))
   \<and> admissible_trace init_state trace_intruder_joined
   \<and> members (run init_state trace_intruder_joined) ''abc123'' = [''Y'', ''X'']
   \<and> snd (chat_message (run init_state trace_intruder_joined) ''X'' ''abc123'' ''hi'' ''m1'') = []"
proof -
  have "(''A'', ChatMessageV0 ''hi'' ''A'') \<in> set (snd (chat_message_v0 scenario_v0 ''A'' ''r'' ''hi''))"
    by (simp add: scenario_v0_def chat_message_v0_def join_room_v0_def ev)
  moreover have "snd (chat_message (run init_state trace_intruder_joined) ''X'' ''abc123'' ''hi'' ''m1'') = []"
    by (simp add: chat_message_def socket_to_def scenario_intruder_joined_facts)
  ultimately show ?thesis by (simp add: scenario_intruder_joined_facts)
qed

theorem chat_and_receipt_routing_witness:
  "reachable scenario_chat \<and> sockets scenario_chat ''Y'' = Some (Some ''bob'')
   \<and> members scenario_chat ''Y'' = [''Y'']
   \<and> ''Y'' \<notin> fst ` set (snd (chat_message scenario_chat ''Y'' ''abc123'' ''hi'' ''m1''))
   \<and> chat_message scenario_chat ''Y'' ''abc123'' ''hi'' ''m1''
       = (scenario_chat, [(''X'', ChatMessage ''hi'' ''m1'' ''Y'' (Some ''bob''))])
   \<and> message_seen scenario_chat ''Y'' ''abc123'' ''m1'' = (scenario_chat, [(''X'', ReadReceipt ''m1'')])"
proof -
  note t = chat_and_receipt_routing [of scenario_chat "''Y''" "''abc123''" "''hi''" "''m1''"]
  have c: "sockets scenario_chat ''Y'' \<noteq> None" by (simp add: scenario_chat_facts)
  from t reachable_scenario_chat c
  have 1: "''Y'' \<notin> fst ` set (snd (chat_message scenario_chat ''Y'' ''abc123'' ''hi'' ''m1''))"
    by blast
  from t have 2: "chat_message scenario_chat ''Y'' ''abc123'' ''hi'' ''m1''
       = (scenario_chat, [(''X'', ChatMessage ''hi'' ''m1'' ''Y'' (Some ''bob''))])
     \<and> message_seen scenario_chat ''Y'' ''abc123'' ''m1'' = (scenario_chat, [(''X'', ReadReceipt ''m1'')])"
    by (simp add: scenario_chat_facts)
  from 1 2 reachable_scenario_chat show ?thesis by (simp add: scenario_chat_facts)
qed

text \<open>
  Claim C9, as amended. The \<open>chat-message\<close>, \<open>typing\<close> and \<open>message-seen\<close>
  handlers (the same in \<open>server.js\<close> and the strict variant) look neither at the
  sender's membership nor at \<open>activeRooms\<close>: whatever \<open>activeRooms\<close> holds, the event
  goes to the current members of the named room that are not members of the room named
  by the sender's id. So a connection that is not a member of the room, and whose own
  room nobody else has joined, reaches every member of the room.
\<close>

theorem relay_without_membership_check:
  "chat_message s c r m i
     = (s, map (\<lambda>x. (x, ChatMessage m i c (username s c)))
             (filter (\<lambda>x. x \<notin> set (members s c)) (members s r)))
   \<and> typing s c r b
     = (s, map (\<lambda>x. (x, Typing (username s c) b))
             (filter (\<lambda>x. x \<notin> set (members s c)) (members s r)))
   \<and> message_seen s c r i
     = (s, map (\<lambda>x. (x, ReadReceipt i)) (filter (\<lambda>x. x \<notin> set (members s c)) (members s r)))
   \<and> snd (chat_message (s\<lparr>activeRooms := A\<rparr>) c r m i) = snd (chat_message s c r m i)
   \<and> snd (typing (s\<lparr>activeRooms := A\<rparr>) c r b) = snd (typing s c r b)
   \<and> snd (message_seen (s\<lparr>activeRooms := A\<rparr>) c r i) = snd (message_seen s c r i)
   \<and> (c \<notin> set (members s r) \<and> members s c = [c] \<longrightarrow>
        snd (chat_message s c r m i)
          = map (\<lambda>x. (x, ChatMessage m i c (username s c))) (members s r)
      \<and> snd (typing s c r b) = map (\<lambda>x. (x, Typing (username s c) b)) (members s r)
      \<and> snd (message_seen s c r i) = map (\<lambda>x. (x, ReadReceipt i)) (members s r))"
proof -
  have "filter (\<lambda>x. x \<notin> set (members s c)) (members s r) = members s r"
    if "c \<notin> set (members s r)" "members s c = [c]"
    using that by (auto simp: filter_id_conv)
  then show ?thesis
    by (simp add: chat_message_def typing_def message_seen_def socket_to_def)
qed

text \<open>
  Claim C9 as stated fails where a member of the room has joined the room named by the
  sender's id: \<open>X\<close> and \<open>Y\<close> are the members of \<open>abc123\<close>, \<open>Y\<close> is also in the
  room \<open>Z\<close>, and a message of \<open>Z\<close> to \<open>abc123\<close> reaches \<open>X\<close> only.
\<close>

theorem relay_skips_member_of_own_id_room:
  "admissible_trace init_state trace_intruder_outsider
   \<and> members (run init_state trace_intruder_outsider) ''abc123'' = [''X'', ''Y'']
   \<and> snd (chat_message (run init_state trace_intruder_outsider) ''Z'' ''abc123'' ''hi'' ''m1'')
       = [(''X'', ChatMessage ''hi'' ''m1'' ''Z'' None)]"
proof -
  have "snd (chat_message (run init_state trace_intruder_outsider) ''Z'' ''abc123'' ''hi'' ''m1'')
       = [(''X'', ChatMessage ''hi'' ''m1'' ''Z'' None)]"
    by (simp add: chat_message_def socket_to_def scenario_intruder_outsider_facts)
  then show ?thesis by (simp add: scenario_intruder_outsider_facts)
qed

theorem relay_without_membership_check_witness:
  "''Z'' \<notin> set (members scenario_chat ''abc123'') \<and> members scenario_chat ''Z'' = [''Z'']
   \<and> activeRooms scenario_chat ''nowhere'' = None
   \<and> snd (chat_message scenario_chat ''Z'' ''abc123'' ''hi'' ''m1'')
       = [(''X'', ChatMessage ''hi'' ''m1'' ''Z'' None), (''Y'', ChatMessage ''hi'' ''m1'' ''Z'' None)]
   \<and> snd (typing scenario_chat ''Z'' ''abc123'' True)
       = [(''X'', Typing None True), (''Y'', Typing None True)]
   \<and> snd (message_seen scenario_chat ''Z'' ''abc123'' ''m1'')
       = [(''X'', ReadReceipt ''m1''), (''Y'', ReadReceipt ''m1'')]"
proof -
  have n: "''Z'' \<notin> set (members scenario_chat ''abc123'')" by (simp add: scenario_chat_facts)
  have a: "activeRooms scenario_chat ''nowhere'' = None"
    by (simp add: scenario_chat_def scenario_group_def trace_group_def ev)
  from relay_without_membership_check [of scenario_chat "''Z''" "''abc123''" "''hi''" "''m1''" True
      "activeRooms scenario_chat"] n
  have "snd (chat_message scenario_chat ''Z'' ''abc123'' ''hi'' ''m1'')
       = [(''X'', ChatMessage ''hi'' ''m1'' ''Z'' None), (''Y'', ChatMessage ''hi'' ''m1'' ''Z'' None)]
   \<and> snd (typing scenario_chat ''Z'' ''abc123'' True)
       = [(''X'', Typing None True), (''Y'', Typing None True)]
   \<and> snd (message_seen scenario_chat ''Z'' ''abc123'' ''m1'')
       = [(''X'', ReadReceipt ''m1''), (''Y'', ReadReceipt ''m1'')]"
    by (simp add: scenario_chat_facts)
  with n a show ?thesis by (simp add: scenario_chat_facts)
qed

subsection \<open>The upload notification\<close>

text \<open>
  Claim C8. A successful upload that names a (non-empty) room id sends
  \<open>file-shared\<close> to every member of that room, with the descriptor (file name,
  original name, media type, size, path under \<open>/uploads/\<close>), the sender id of the
  form, the correlation token, and as sender name the \<open>data.username\<close> of the
  sender's socket if that socket is present and \<open>A user\<close> if it is not.
\<close>

theorem upload_file_shared:
  "r \<noteq> [] \<longrightarrow>
     upload s (Stored f) (Some r) senderId tempId
       = (Status200 (mk_file_data f),
          map (\<lambda>m. (m, FileShared (mk_file_data f) senderId
                         (case sockets s senderId of None \<Rightarrow> Some ''A user'' | Some u \<Rightarrow> u) tempId))
              (members s r))
   \<and> mk_file_data f = \<lparr>filename = sf_filename f, originalname = sf_originalname f,
        mimetype = sf_mimetype f, size_bytes = sf_size f, path = ''/uploads/'' @ sf_filename f\<rparr>"
  by (simp add: upload_def Let_def io_to_def sender_name_def mk_file_data_def)

theorem upload_file_shared_witness:
  "''abc123'' \<noteq> []
   \<and> snd (upload scenario_chat (Stored photo) (Some ''abc123'') ''Y'' (Some ''t1''))
       = [(''X'', FileShared (mk_file_data photo) ''Y'' (Some ''bob'') (Some ''t1'')),
          (''Y'', FileShared (mk_file_data photo) ''Y'' (Some ''bob'') (Some ''t1''))]
   \<and> snd (upload scenario_chat (Stored photo) (Some ''abc123'') ''gone'' None)
       = [(''X'', FileShared (mk_file_data photo) ''gone'' (Some ''A user'') None),
          (''Y'', FileShared (mk_file_data photo) ''gone'' (Some ''A user'') None)]
   \<and> path (mk_file_data photo) = ''/uploads/1700000000000-cat.png''"
  using upload_file_shared [of "''abc123''" scenario_chat photo "''Y''" "Some ''t1''"]
    upload_file_shared [of "''abc123''" scenario_chat photo "''gone''" None]
  by (simp add: scenario_chat_facts photo_def)



subsection \<open>Presence and cleanup on a disconnect\<close>

lemma concat_map_if:
  "concat (map (\<lambda>r. if P r then f r else []) rs) = concat (map f (filter P rs))"
  by (induction rs) simp_all

lemma disconnecting_out:
  "snd (disconnecting s c) =
     concat (map (\<lambda>r. map (\<lambda>m. (m, UserLeft (username s c)))
                       (filter (\<lambda>m. m \<notin> set (members s c)) (members s r)))
                 (filter (\<lambda>r. r \<noteq> c) (socket_rooms s c)))"
  by (simp add: disconnecting_eq concat_map_if socket_to_def)

lemma disconnect_out: "snd (disconnect s c) = snd (disconnecting s c)"
  by (simp add: disconnect_eq)

text \<open>
  Claim C6, as amended. On a disconnect the deliveries are, for each room of the
  connection other than the room named by its own id, in the order of
  \<open>socket.rooms\<close>, one \<open>user-left\<close> with the leaving connection's display name to
  every member of that room that is not a member of the room named by the leaving
  connection's id: the audience is taken from the membership before the leave, and the
  size check of the cleanup comes after the broadcast and still counts the leaving
  connection. So a member of a shared room that has not joined the room named by the
  leaving connection's id is sent \<open>user-left\<close>, and a room whose size is not one keeps
  its entry in \<open>activeRooms\<close>; while in a reachable state, for a room whose only member
  is the leaving connection, nothing is sent and the entry is deleted.
\<close>

theorem disconnect_presence_and_cleanup:
  "snd (disconnect s c) =
     concat (map (\<lambda>r. map (\<lambda>m. (m, UserLeft (username s c)))
                       (filter (\<lambda>m. m \<notin> set (members s c)) (members s r)))
                 (filter (\<lambda>r. r \<noteq> c) (socket_rooms s c)))
   \<and> (r \<in> set (socket_rooms s c) \<and> r \<noteq> c \<and> m \<in> set (members s r) \<and> m \<notin> set (members s c)
        \<longrightarrow> (m, UserLeft (username s c)) \<in> set (snd (disconnect s c)))
   \<and> (reachable s \<and> sockets s c \<noteq> None \<and> r \<in> set (socket_rooms s c) \<and> r \<noteq> c
          \<and> members s r = [c]
        \<longrightarrow> snd (leave_room s c r) = [] \<and> activeRooms (fst (disconnect s c)) r = None)
   \<and> (reachable s \<and> sockets s c \<noteq> None \<and> set (socket_rooms s c) \<subseteq> {c, r}
          \<and> members s r = [c]
        \<longrightarrow> snd (disconnect s c) = [])
   \<and> (length (members s r) \<noteq> 1 \<longrightarrow> activeRooms (fst (disconnect s c)) r = activeRooms s r)"
proof -
  have 1: "(m, UserLeft (username s c)) \<in> set (snd (disconnect s c))"
    if "r \<in> set (socket_rooms s c)" "r \<noteq> c" "m \<in> set (members s r)" "m \<notin> set (members s c)"
    using that by (auto simp: disconnect_out disconnecting_out)
  have 2: "snd (leave_room s c r) = [] \<and> activeRooms (fst (disconnect s c)) r = None"
    if "reachable s" "sockets s c \<noteq> None" "r \<in> set (socket_rooms s c)" "r \<noteq> c"
      "members s r = [c]"
  proof -
    from that(1,2) have "c \<in> set (members s c)" using own_room by blast
    with that(3-5) show ?thesis
      by (simp add: leave_room_def socket_to_def Let_def activeRooms_disconnect)
  qed
  have 3: "snd (disconnect s c) = []"
    if "reachable s" "sockets s c \<noteq> None" "set (socket_rooms s c) \<subseteq> {c, r}" "members s r = [c]"
  proof -
    from that(1,2) have "c \<in> set (members s c)" using own_room by blast
    with that(3,4) show ?thesis by (auto simp: disconnect_out disconnecting_out)
  qed
  have 4: "activeRooms (fst (disconnect s c)) r = activeRooms s r" if "length (members s r) \<noteq> 1"
    using that by (simp add: activeRooms_disconnect)
  from 1 2 3 4 show ?thesis by (simp add: disconnect_out disconnecting_out)
qed

text \<open>
  Claim C6 as stated fails where the surviving member has joined the room named by the
  leaving connection's id: \<open>X\<close> and \<open>Y\<close> are the members of \<open>abc123\<close>, \<open>Y\<close> is
  also in the room \<open>X\<close>, and the disconnect of \<open>X\<close> sends nothing, though \<open>Y\<close>
  stays behind in \<open>abc123\<close>.
\<close>

theorem disconnect_skips_member_of_own_id_room:
  "admissible_trace init_state trace_intruder_joined
   \<and> members (run init_state trace_intruder_joined) ''abc123'' = [''Y'', ''X'']
   \<and> snd (disconnect (run init_state trace_intruder_joined) ''X'') = []
   \<and> members (fst (disconnect (run init_state trace_intruder_joined) ''X'')) ''abc123'' = [''Y'']"
proof -
  have "snd (disconnect (run init_state trace_intruder_joined) ''X'') = []"
    by (simp add: disconnect_out disconnecting_out scenario_intruder_joined_facts)
  moreover have "members (fst (disconnect (run init_state trace_intruder_joined) ''X'')) ''abc123'' = [''Y'']"
    by (simp add: trace_intruder_joined_def trace_intruder_def ev)
  ultimately show ?thesis by (simp add: scenario_intruder_joined_facts)
qed

theorem disconnect_presence_and_cleanup_witness:
  "''abc123'' \<in> set (socket_rooms scenario_chat ''X'') \<and> ''abc123'' \<noteq> ''X''
   \<and> ''Y'' \<in> set (members scenario_chat ''abc123'') \<and> ''Y'' \<notin> set (members scenario_chat ''X'')
   \<and> length (members scenario_chat ''abc123'') \<noteq> 1
   \<and> snd (disconnect scenario_chat ''X'') = [(''Y'', UserLeft (Some ''alice''))]
   \<and> activeRooms (fst (disconnect scenario_chat ''X'')) ''abc123'' = Some ''group''
   \<and> reachable scenario_solo \<and> sockets scenario_solo ''X'' = Some (Some ''alice'')
   \<and> ''solo'' \<in> set (socket_rooms scenario_solo ''X'') \<and> ''solo'' \<noteq> ''X''
   \<and> set (socket_rooms scenario_solo ''X'') \<subseteq> {''X'', ''solo''}
   \<and> members scenario_solo ''solo'' = [''X'']
   \<and> snd (disconnect scenario_solo ''X'') = []
   \<and> activeRooms (fst (disconnect scenario_solo ''X'')) ''solo'' = None"
proof -
  note t = disconnect_presence_and_cleanup [of scenario_chat "''X''" "''abc123''" "''Y''"]
  note u = disconnect_presence_and_cleanup [of scenario_solo "''X''" "''solo''" "''X''"]
  have sub: "set (socket_rooms scenario_solo ''X'') \<subseteq> {''X'', ''solo''}"
    by (simp add: scenario_solo_facts)
  have c: "sockets scenario_solo ''X'' \<noteq> None" by (simp add: scenario_solo_facts)
  from t have a: "snd (disconnect scenario_chat ''X'') = [(''Y'', UserLeft (Some ''alice''))]"
    by (simp add: scenario_chat_facts)
  from t have b: "activeRooms (fst (disconnect scenario_chat ''X'')) ''abc123'' = Some ''group''"
    by (simp add: scenario_chat_facts)
  from u sub c reachable_scenario_solo have d: "snd (disconnect scenario_solo ''X'') = []
      \<and> activeRooms (fst (disconnect scenario_solo ''X'')) ''solo'' = None"
    by (simp add: scenario_solo_facts)
  from a b d reachable_scenario_solo show ?thesis
    by (simp add: scenario_chat_facts scenario_solo_facts)
qed

subsection \<open>The first join fixes the room type\<close>

lemma activeRooms_join_room:
  "activeRooms (fst (join_room s c r u k)) r' =
     (if r' = r \<and> room_data s r = None then Some k else activeRooms s r')"
  by (cases rule: join_room_cases [of s r c u k]) (auto simp: room_data_own)

lemma run_join_requests_kind:
  "activeRooms s r = Some k0 \<Longrightarrow> activeRooms (run s (join_requests r js)) r = Some k0"
proof (induction js arbitrary: s)
  case Nil
  then show ?case by (simp add: join_requests_def)
next
  case (Cons j js)
  obtain c u k where j: "j = (c, u, k)" by (cases j) auto
  from Cons.prems have "activeRooms (fst (join_room s c r u k)) r = Some k0"
    by (simp add: activeRooms_join_room room_data_own)
  from Cons.IH [OF this] show ?case by (simp add: join_requests_def j)
qed

lemma join_success_registers:
  assumes "(c, JoinSuccess r) \<in> set (snd (join_room s c r u k))"
  shows "activeRooms (fst (join_room s c r u k)) r = Some k"
  using assms
  by (cases rule: join_room_cases [of s r c u k]) simp_all

text \<open>
  Claim C1. Let a room id have no entry in \<open>activeRooms\<close>. A first \<open>join-room\<close>
  request for it that succeeds enters the room with the requested type; it does succeed
  when the lookup \<open>activeRooms[roomId]\<close> finds nothing. After any further sequence of
  \<open>join-room\<close> requests for that room id the entry still holds the first type, and a
  request with another type is answered with \<open>room-type-mismatch\<close>, carrying the
  entered and the attempted type, to the requester alone and leaves the whole state
  (memberships and entry included) as it was.
\<close>

theorem first_join_fixes_kind:
  "(activeRooms s r = None \<and> (c0, JoinSuccess r) \<in> set (snd (join_room s c0 r u0 k0))
      \<longrightarrow> activeRooms (fst (join_room s c0 r u0 k0)) r = Some k0
        \<and> activeRooms (run s (join_requests r ((c0, u0, k0) # js))) r = Some k0
        \<and> (k \<noteq> k0 \<longrightarrow>
             join_room (run s (join_requests r ((c0, u0, k0) # js))) c r u k
               = (run s (join_requests r ((c0, u0, k0) # js)),
                  [(c, RoomTypeMismatch (Some k0) k)])))
   \<and> (room_data s r = None \<longrightarrow> (c0, JoinSuccess r) \<in> set (snd (join_room s c0 r u0 k0)))"
proof -
  let ?s1 = "fst (join_room s c0 r u0 k0)"
  let ?sn = "run s (join_requests r ((c0, u0, k0) # js))"
  have A: "activeRooms ?s1 r = Some k0 \<and> activeRooms ?sn r = Some k0
        \<and> (k \<noteq> k0 \<longrightarrow> join_room ?sn c r u k = (?sn, [(c, RoomTypeMismatch (Some k0) k)]))"
    if ok: "(c0, JoinSuccess r) \<in> set (snd (join_room s c0 r u0 k0))"
  proof -
    from ok have b: "activeRooms ?s1 r = Some k0" by (rule join_success_registers)
    have "?sn = run ?s1 (join_requests r js)" by (simp add: join_requests_def)
    with run_join_requests_kind [OF b] have c: "activeRooms ?sn r = Some k0" by simp
    have d: "join_room ?sn c r u k = (?sn, [(c, RoomTypeMismatch (Some k0) k)])" if "k \<noteq> k0"
    proof -
      from c have "room_data ?sn r = Some (Some k0)" by (rule room_data_own)
      moreover from that have "Some k0 \<noteq> Some k" by simp
      ultimately show ?thesis by (rule join_room_mismatch)
    qed
    from b c d show ?thesis by blast
  qed
  have B: "(c0, JoinSuccess r) \<in> set (snd (join_room s c0 r u0 k0))" if "room_data s r = None"
    using that by (simp add: join_room_fresh do_join_def Let_def socket_emit_def)
  from A B show ?thesis by blast
qed

theorem first_join_fixes_kind_witness:
  "activeRooms scenario_connected ''r1'' = None \<and> room_data scenario_connected ''r1'' = None
   \<and> (''X'', JoinSuccess ''r1'') \<in> set (snd (join_room scenario_connected ''X'' ''r1'' ''alice'' ''private''))
   \<and> activeRooms (run scenario_connected
         (join_requests ''r1'' [(''X'', ''alice'', ''private''), (''Y'', ''bob'', ''group''),
                                (''Y'', ''bob'', ''private'')])) ''r1'' = Some ''private''
   \<and> ''group'' \<noteq> ''private''
   \<and> snd (join_room (run scenario_connected
         (join_requests ''r1'' [(''X'', ''alice'', ''private''), (''Y'', ''bob'', ''group''),
                                (''Y'', ''bob'', ''private'')])) ''Z'' ''r1'' ''zed'' ''group'')
       = [(''Z'', RoomTypeMismatch (Some ''private'') ''group'')]
   \<and> members (fst (join_room (run scenario_connected
         (join_requests ''r1'' [(''X'', ''alice'', ''private''), (''Y'', ''bob'', ''group''),
                                (''Y'', ''bob'', ''private'')])) ''Z'' ''r1'' ''zed'' ''group'')) ''r1''
       = [''X'', ''Y'']"
proof -
  let ?js = "[(''Y'', ''bob'', ''group''), (''Y'', ''bob'', ''private'')]"
  let ?sn = "run scenario_connected (join_requests ''r1'' ((''X'', ''alice'', ''private'') # ?js))"
  have n: "''group'' \<noteq> ''private''" by simp
  have m: "members ?sn ''r1'' = [''X'', ''Y'']"
    by (simp add: scenario_connected_def join_requests_def ev)
  note t = first_join_fixes_kind [of scenario_connected "''r1''" "''X''" "''alice''" "''private''" ?js
      "''group''" "''Z''" "''zed''"]
  from t scenario_connected_fresh
  have ok: "(''X'', JoinSuccess ''r1'') \<in> set (snd (join_room scenario_connected ''X'' ''r1'' ''alice'' ''private''))"
    by blast
  from t scenario_connected_fresh ok n
  have "activeRooms ?sn ''r1'' = Some ''private''
      \<and> join_room ?sn ''Z'' ''r1'' ''zed'' ''group''
          = (?sn, [(''Z'', RoomTypeMismatch (Some ''private'') ''group'')])"
    by blast
  with m ok scenario_connected_fresh n show ?thesis by simp
qed

subsection \<open>The directory follows the membership\<close>

lemma filter_keeps_another:
  assumes "distinct xs" "xs \<noteq> []" "length xs \<noteq> 1"
  shows "filter (\<lambda>m. m \<noteq> c) xs \<noteq> []"
proof -
  from assms(2,3) obtain a b ys where xs: "xs = a # b # ys"
    by (cases xs; cases "tl xs") auto
  with assms(1) have "a \<noteq> b" by simp
  then have "a \<noteq> c \<or> b \<noteq> c" by auto
  with xs show ?thesis by auto
qed

lemma tracks_disconnect:
  assumes w: "well_formed s"
    and i: "(activeRooms s r \<noteq> None) = (members s r \<noteq> [])"
    and n: "r \<noteq> c"
  shows "(activeRooms (fst (disconnect s c)) r \<noteq> None) = (members (fst (disconnect s c)) r \<noteq> [])"
proof (cases "c \<in> set (members s r)")
  case False
  then have "filter (\<lambda>m. m \<noteq> c) (members s r) = members s r" by (auto simp: filter_id_conv)
  moreover from False w have "r \<notin> set (socket_rooms s c)" by (simp add: well_formed_def)
  ultimately show ?thesis using i
    by (simp add: members_disconnect [OF w] activeRooms_disconnect)
next
  case True
  with w have r: "r \<in> set (socket_rooms s c)" by (simp add: well_formed_def)
  from True have ne: "members s r \<noteq> []" by auto
  show ?thesis
  proof (cases "length (members s r) = 1")
    case True
    with w r have "members s r = [c]" by (simp add: sole_member)
    with r n True show ?thesis
      by (simp add: members_disconnect [OF w] activeRooms_disconnect)
  next
    case False
    from w have "distinct (members s r)" by (simp add: well_formed_def)
    from filter_keeps_another [OF this ne False]
    have "filter (\<lambda>m. m \<noteq> c) (members s r) \<noteq> []" .
    with False i ne show ?thesis
      by (simp add: members_disconnect [OF w] activeRooms_disconnect)
  qed
qed

lemma set_add_nonempty [simp]: "set_add x xs \<noteq> []"
  by (auto simp: set_add_def)

lemma sockets_do_join: "sockets (fst (do_join s c r u)) = (sockets s)(c \<mapsto> Some u)"
  by (simp add: do_join_state)

lemma sockets_join_room:
  "c \<noteq> x \<Longrightarrow> sockets (fst (join_room s c r u k)) x = sockets s x"
  using join_room_outcome [of s c r u k] by (auto simp: sockets_do_join)

lemma members_join_room:
  "r' \<noteq> r \<Longrightarrow> members (fst (join_room s c r u k)) r' = members s r'"
  using join_room_outcome [of s c r u k] by (auto simp: members_do_join)

lemma tracks_join_room:
  assumes i: "(activeRooms s r \<noteq> None) = (members s r \<noteq> [])"
  shows "(activeRooms (fst (join_room s c r' u k)) r \<noteq> None)
         = (members (fst (join_room s c r' u k)) r \<noteq> [])"
proof (cases "r' = r")
  case False
  then have "r \<noteq> r'" by simp
  with i show ?thesis by (simp add: members_join_room activeRooms_join_room)
next
  case True
  show ?thesis
    using i unfolding True
    by (cases rule: join_room_cases [of s r c u k]) (simp_all add: members_do_join)
qed

lemma sockets_connect: "sockets (transport_connect s c) = (sockets s)(c \<mapsto> None)"
  by (simp add: transport_connect_def)

lemma sockets_disconnect: "sockets (fst (disconnect s c)) = (sockets s)(c := None)"
  by (simp add: disconnect_eq disconnecting_eq)

lemma tracks_step:
  assumes w: "well_formed s" and x: "sockets s r = None"
    and i: "(activeRooms s r \<noteq> None) = (members s r \<noteq> [])"
    and a: "admissible s q" and q: "q \<noteq> Connect r"
  shows "sockets (fst (handle s q)) r = None
       \<and> (activeRooms (fst (handle s q)) r \<noteq> None) = (members (fst (handle s q)) r \<noteq> [])"
proof (cases q)
  case (Connect c)
  with q have "c \<noteq> r" by simp
  with Connect x i show ?thesis by (simp add: sockets_connect members_connect)
next
  case (JoinRoom c r' u k)
  with a x have "c \<noteq> r" by auto
  with JoinRoom x tracks_join_room [OF i] show ?thesis by (simp add: sockets_join_room)
next
  case (Disconnect c)
  with a x have "r \<noteq> c" by auto
  with Disconnect x tracks_disconnect [OF w i] show ?thesis by (simp add: sockets_disconnect)
qed (use x i in \<open>simp_all add: chat_message_def message_seen_def typing_def\<close>)

lemma tracks_run:
  assumes "well_formed s" "sockets s r = None" "(activeRooms s r \<noteq> None) = (members s r \<noteq> [])"
    "admissible_trace s qs" "Connect r \<notin> set qs"
  shows "(activeRooms (run s qs) r \<noteq> None) = (members (run s qs) r \<noteq> [])"
  using assms
proof (induction qs arbitrary: s)
  case Nil
  then show ?case by simp
next
  case (Cons q qs)
  from Cons.prems have a: "admissible s q" and q: "q \<noteq> Connect r" by auto
  from tracks_step [OF Cons.prems(1-3) a q] well_formed_handle [OF Cons.prems(1) a] Cons.prems(4,5)
  have "(activeRooms (run (fst (handle s q)) qs) r \<noteq> None)
        = (members (run (fst (handle s q)) qs) r \<noteq> [])"
    by (intro Cons.IH) simp_all
  then show ?case by simp
qed

text \<open>
  Claim C3, as amended. For a room id that is never the id of a connection: after every
  run of \<open>server.js\<close> from the initial state, the room id has an entry in
  \<open>activeRooms\<close> if and only if the room has at least one member. And when, in a
  reachable state, the only member of a room other than the room named by its own id
  disconnects, the room has no entry and no member afterwards.
\<close>

theorem directory_tracks_membership:
  "(admissible_trace init_state qs \<and> Connect r \<notin> set qs
      \<longrightarrow> (activeRooms (run init_state qs) r \<noteq> None) = (members (run init_state qs) r \<noteq> []))
   \<and> (reachable s \<and> r \<noteq> c \<and> members s r = [c]
      \<longrightarrow> activeRooms (fst (disconnect s c)) r = None \<and> members (fst (disconnect s c)) r = [])"
proof -
  have A: "(activeRooms (run init_state qs) r \<noteq> None) = (members (run init_state qs) r \<noteq> [])"
    if "admissible_trace init_state qs" "Connect r \<notin> set qs"
    using well_formed_init _ _ that
    by (rule tracks_run) (simp_all add: init_state_def members_def)
  have B: "activeRooms (fst (disconnect s c)) r = None \<and> members (fst (disconnect s c)) r = []"
    if "reachable s" "r \<noteq> c" "members s r = [c]"
  proof -
    from that(1) have w: "well_formed s" by (simp add: reachable_invariants)
    with that(3) have "r \<in> set (socket_rooms s c)" by (simp add: well_formed_def)
    with that(2,3) show ?thesis by (simp add: members_disconnect [OF w] activeRooms_disconnect)
  qed
  from A B show ?thesis by blast
qed

text \<open>
  Claim C3 as stated fails for a room id that is a connection id. The transport puts
  every connection into the room named by its own id, which so has a member and no entry
  in \<open>activeRooms\<close>. And the \<open>disconnecting\<close> handler skips that room, so after
  a connection has joined the room named by its own id and disconnected, the entry stays
  in \<open>activeRooms\<close> with no member left.
\<close>

theorem stale_entry_after_own_id_join:
  "admissible_trace init_state trace_own_id
   \<and> activeRooms (run init_state trace_own_id) ''X'' = Some ''group''
   \<and> members (run init_state trace_own_id) ''X'' = []
   \<and> admissible_trace init_state [Connect ''X'']
   \<and> activeRooms (run init_state [Connect ''X'']) ''X'' = None
   \<and> members (run init_state [Connect ''X'']) ''X'' = [''X'']"
  by (simp add: trace_own_id_def ev)

theorem directory_tracks_membership_witness:
  "admissible_trace init_state (trace_private @ [Disconnect ''X'', Disconnect ''Y''])
   \<and> Connect ''r1'' \<notin> set (trace_private @ [Disconnect ''X'', Disconnect ''Y''])
   \<and> activeRooms (run init_state (trace_private @ [Disconnect ''X'', Disconnect ''Y''])) ''r1'' = None
   \<and> members (run init_state (trace_private @ [Disconnect ''X'', Disconnect ''Y''])) ''r1'' = []
   \<and> reachable scenario_solo \<and> ''solo'' \<noteq> ''X'' \<and> members scenario_solo ''solo'' = [''X'']
   \<and> activeRooms (fst (disconnect scenario_solo ''X'')) ''solo'' = None
   \<and> members (fst (disconnect scenario_solo ''X'')) ''solo'' = []"
proof -
  let ?qs = "trace_private @ [Disconnect ''X'', Disconnect ''Y'']"
  have a: "admissible_trace init_state ?qs" by (simp add: trace_private_def ev)
  have n: "Connect ''r1'' \<notin> set ?qs" by (simp add: trace_private_def)
  have m: "members (run init_state ?qs) ''r1'' = []" by (simp add: trace_private_def ev)
  have rs: "reachable scenario_solo"
    unfolding scenario_solo_def by (rule reachable_run [OF reachable.init]) (simp add: ev)
  from directory_tracks_membership [of ?qs "''r1''" scenario_solo "''X''"] a n m
  have 1: "activeRooms (run init_state ?qs) ''r1'' = None" by simp
  from directory_tracks_membership [of ?qs "''solo''" scenario_solo "''X''"] rs
  have 2: "activeRooms (fst (disconnect scenario_solo ''X'')) ''solo'' = None
       \<and> members (fst (disconnect scenario_solo ''X'')) ''solo'' = []"
    by (simp add: scenario_solo_facts)
  from a n m rs 1 2 show ?thesis by (simp add: scenario_solo_facts)
qed

end
